theory Spec2Isabelle
  imports Main "HOL-Library.Word"
begin

section \<open>The build-pipeline coordinator (GraphWatcher)\<close>

text \<open>
  A shallow embedding of the development-time watcher script: it checks the
  capabilities of the Watchman service, synchronises the GraphQL schema snapshot,
  runs the Relay compiler, and subscribes to two source trees whose change events
  re-run the pipeline.

  The script is callback driven. Its state is an explicit record \<open>world\<close>; every call
  that leaves the script (a log line, a Watchman command, an HTTP request, a
  subprocess, a file write, closing the connection) is appended to a trace in the
  order in which the script makes it. What the outside answers (replies of the
  service, the HTTP response, the outcome of the subprocess and of the file write)
  is an input of the model.

  Three things are fixed by the model. The service answers commands in the order in
  which the client has sent them, one reply for each command. A pipeline run (schema
  synchronisation and compiler) is one step: nothing else is interleaved with it. An
  exception that escapes a callback, and a rejection that nobody handles, end the
  process.
\<close>

subsection \<open>Values\<close>

text \<open>
  JavaScript values that cross the script's borders are the values that
  \<open>response.json()\<close> and \<open>JSON.parse\<close> give. A number of JavaScript is a double.
  \<open>JNum\<close> holds a number that is an integer from \<open>-2^53\<close> to \<open>2^53 - 1\<close>: each of
  them is a double, and JavaScript prints it with all its digits. \<open>JDouble\<close> holds any
  other finite number (one with a fraction, or a greater one such as \<open>1e+21\<close>), named
  by the text that JavaScript prints for it. \<open>JInfinity\<close> is an infinite number, which
  \<open>response.json()\<close> gives for a number literal beyond the range of the doubles; its
  argument tells the negative one. The two zeros are not told apart. A string is the
  list of the bytes of its UTF-8 encoding. An object lists its properties in
  enumeration order. A value that may be \<open>undefined\<close> is a \<open>json option\<close>, with \<open>None\<close>
  for \<open>undefined\<close>.
\<close>

type_synonym safe_integer = "54 word"

datatype json =
    JNull
  | JBool bool
  | JNum safe_integer
  | JDouble string
  | JInfinity bool
  | JStr string
  | JArr "json list"
  | JObj "(string \<times> json) list"

type_synonym jsobject = "(string \<times> json) list"

text \<open>Property access \<open>o.k\<close> on an object.\<close>

definition get :: "jsobject \<Rightarrow> string \<Rightarrow> json option" where
  "get obj k = map_of obj k"

text \<open>The operator \<open>k in o\<close>.\<close>

definition has :: "jsobject \<Rightarrow> string \<Rightarrow> bool" where
  "has obj k = (k \<in> fst ` set obj)"

text \<open>JavaScript's conversion to a boolean, as \<open>if (v)\<close> applies it.\<close>

fun truthy :: "json option \<Rightarrow> bool" where
  "truthy None = False"
| "truthy (Some JNull) = False"
| "truthy (Some (JBool b)) = b"
| "truthy (Some (JNum n)) = (n \<noteq> 0)"
| "truthy (Some (JDouble s)) = True"
| "truthy (Some (JInfinity negative)) = True"
| "truthy (Some (JStr s)) = (s \<noteq> [])"
| "truthy (Some (JArr _)) = True"
| "truthy (Some (JObj _)) = True"

datatype error = Error string | TypeError string | SyntaxError string

subsection \<open>\<open>String.prototype.split\<close> and \<open>Array.prototype.slice\<close>\<close>

text \<open>\<open>s.split(c)\<close> for a one-character separator: never the empty list.\<close>

fun split :: "char \<Rightarrow> string \<Rightarrow> string list" where
  "split c [] = [[]]"
| "split c (x # xs) =
     (if x = c then [] # split c xs
      else (let r = split c xs in (x # hd r) # tl r))"

text \<open>
  \<open>xs.slice(start, fin)\<close>: a negative index counts from the end, both indices are
  clamped to the list, and an empty range gives the empty list.
\<close>

definition slice :: "int \<Rightarrow> int \<Rightarrow> 'a list \<Rightarrow> 'a list" where
  "slice start fin xs =
     (let len = int (length xs);
          k = (if start < 0 then max (len + start) 0 else min start len);
          final = (if fin < 0 then max (len + fin) 0 else min fin len)
      in take (nat (final - k)) (drop (nat k) xs))"

subsection \<open>\<open>JSON.stringify(value, null, 2)\<close>\<close>

definition hex_digit :: "nat \<Rightarrow> char" where
  "hex_digit n = (if n < 10 then char_of (48 + n) else char_of (87 + n))"

text \<open>
  One character of a quoted string: the quote and the backslash are escaped, the
  control characters have their short escape or \<open>\u00XX\<close>, every other byte is kept.
\<close>

definition quote_char :: "char \<Rightarrow> string" where
  "quote_char c =
     (if c = CHR 0x22 then [CHR 0x5C, CHR 0x22]
      else if c = CHR 0x5C then [CHR 0x5C, CHR 0x5C]
      else if c = CHR 0x08 then [CHR 0x5C, CHR ''b'']
      else if c = CHR 0x0C then [CHR 0x5C, CHR ''f'']
      else if c = CHR 0x0A then [CHR 0x5C, CHR ''n'']
      else if c = CHR 0x0D then [CHR 0x5C, CHR ''r'']
      else if c = CHR 0x09 then [CHR 0x5C, CHR ''t'']
      else if of_char c < (32 :: nat) then
        [CHR 0x5C, CHR ''u'', CHR ''0'', CHR ''0'',
         hex_digit (of_char c div 16), hex_digit (of_char c mod 16)]
      else [c])"

definition quote :: "string \<Rightarrow> string" where
  "quote s = CHR 0x22 # concat (map quote_char s) @ [CHR 0x22]"

fun digits :: "nat \<Rightarrow> string" where
  "digits n = (if n < 10 then [char_of (48 + n)] else digits (n div 10) @ [char_of (48 + n mod 10)])"

declare digits.simps [simp del]

text \<open>\<open>Number::toString\<close> of an integer from \<open>-2^53\<close> to \<open>2^53 - 1\<close>.\<close>

definition number_to_string :: "safe_integer \<Rightarrow> string" where
  "number_to_string n =
     (if sint n < 0 then CHR ''-'' # digits (nat (- sint n)) else digits (nat (sint n)))"

text \<open>\<open>xs.join(sep)\<close>.\<close>

fun join :: "string \<Rightarrow> string list \<Rightarrow> string" where
  "join sep [] = []"
| "join sep [x] = x"
| "join sep (x # y # ys) = x @ sep @ join sep (y # ys)"

text \<open>
  The serialisation with a gap of two spaces; \<open>indent\<close> is the current indentation
  (a number of spaces). An empty array or object is printed without a line break. A
  finite number is printed as \<open>Number::toString\<close> prints it, a number that is not
  finite as \<open>null\<close>.
\<close>

fun serialize :: "nat \<Rightarrow> json \<Rightarrow> string" where
  "serialize indent JNull = ''null''"
| "serialize indent (JBool b) = (if b then ''true'' else ''false'')"
| "serialize indent (JNum n) = number_to_string n"
| "serialize indent (JDouble s) = s"
| "serialize indent (JInfinity negative) = ''null''"
| "serialize indent (JStr s) = quote s"
| "serialize indent (JArr xs) =
     (if xs = [] then ''[]''
      else ''['' @ [CHR 0x0A] @ replicate (indent + 2) CHR '' ''
        @ join ('','' @ [CHR 0x0A] @ replicate (indent + 2) CHR '' '')
            (map (serialize (indent + 2)) xs)
        @ [CHR 0x0A] @ replicate indent CHR '' '' @ '']'')"
| "serialize indent (JObj kvs) =
     (if kvs = [] then ''{}''
      else ''{'' @ [CHR 0x0A] @ replicate (indent + 2) CHR '' ''
        @ join ('','' @ [CHR 0x0A] @ replicate (indent + 2) CHR '' '')
            (map (\<lambda>(k, v). quote k @ '': '' @ serialize (indent + 2) v) kvs)
        @ [CHR 0x0A] @ replicate indent CHR '' '' @ ''}'')"

definition stringify :: "json \<Rightarrow> string" where
  "stringify v = serialize 0 v"

subsection \<open>\<open>JSON.parse\<close>\<close>



definition is_digit :: "char \<Rightarrow> bool" where
  "is_digit c = (48 \<le> (of_char c :: nat) \<and> (of_char c :: nat) \<le> 57)"





















definition tail_ok :: "string \<Rightarrow> bool" where
  "tail_ok rest =
     (rest = [] \<or>
      \<not> is_digit (hd rest) \<and> hd rest \<noteq> CHR ''.'' \<and> hd rest \<noteq> CHR ''e'' \<and> hd rest \<noteq> CHR ''E'')"





subsection \<open>The world the script acts on\<close>

text \<open>
  The levels of the logger. The trace records every call of the logger; the logger is
  configured at level \<open>info\<close>, so that it prints all calls but those at level
  \<open>debug\<close>.
\<close>

datatype level = ERROR | WARN | INFO | DEBUG

text \<open>A changed file, with the fields that the subscriptions ask for.\<close>

record changed_file =
  name :: string
  size_f :: int
  mtime_ms :: int
  exists_f :: bool
  type_f :: string

text \<open>A change-event batch pushed by the service.\<close>

record event =
  subscription :: string
  files :: "changed_file list"

text \<open>
  The arguments of a log call after the format string, and the message of a log call:
  a format string with its arguments, or an error object.
\<close>

datatype arg = S string | V "json option" | N int | Names "string list" | Ev event

datatype message = Text string "arg list" | Thrown error

text \<open>
  An entry of \<open>SUBSCRIPTIONS\<close>, and the configuration sent with a subscribe command:
  \<open>{ ...config, since, relative_root }\<close>. The field \<open>fields_c\<close> is the property
  \<open>fields\<close>, the field \<open>id_s\<close> the property \<open>id\<close>.
\<close>

record config =
  expression :: json
  fields_c :: json

record subscriptionConfig = config +
  since :: "json option"
  relative_root :: "json option"

record sub =
  id_s :: string
  path :: string
  config :: config

text \<open>
  The commands sent with \<open>client.command\<close>, and the calls that leave the script:
  a call of the logger, \<open>console.log()\<close>, \<open>client.capabilityCheck\<close> (whose
  arguments are constants), a command, \<open>client.end()\<close>, the HTTP request, the file
  write and the subprocess.
\<close>

datatype command =
    Watch_project string
  | Clock "json option"
  | Subscribe "json option" string subscriptionConfig

datatype effect =
    Log level message
  | ConsoleLog
  | CapabilityCheck
  | Command command
  | End
  | Fetch string
  | WriteFile string string
  | Exec string

text \<open>The process: running, ended by \<open>process.exit\<close>, or ended by an uncaught failure.\<close>

datatype status = Running | Exited int | Uncaught error

text \<open>
  The two callbacks that \<open>start\<close> passes to \<open>subscribe\<close>: the one for the graph
  subscription and the one for the frontend subscription.
\<close>

datatype handler = Graph_pipeline | Frontend_pipeline

text \<open>A listener registered with \<open>client.on('subscription', ...)\<close>: the closure's variables.\<close>

record 'cb listener =
  subscriptionId :: string
  callback :: 'cb

text \<open>
  A command that waits for its reply, as the closure that will receive the reply:
  the callback of \<open>checkCapability\<close>, of \<open>watchProject\<close> (with the call of
  \<open>subscribe\<close> that awaits it), of the clock command and of the subscribe command.
\<close>

datatype cont =
    K_capability
  | K_watch sub handler
  | K_clock sub jsobject handler
  | K_subscribe string subscriptionConfig handler

text \<open>
  The state: the trace, the files, the process, the closures that wait for a reply
  (oldest first), the listeners for subscription events (in order of registration), and
  the number of pipeline runs started so far.
\<close>

record world =
  trace :: "effect list"
  disk :: "string \<rightharpoonup> string"
  status :: status
  pending :: "cont list"
  listeners :: "handler listener list"
  runs :: nat

text \<open>A reply of the service, as the two arguments \<open>(error, response)\<close> of a callback.\<close>

record reply =
  err :: "error option"
  resp :: "jsobject option"

text \<open>What a pipeline run meets outside: the HTTP exchange, the file write, the subprocess.\<close>

record response =
  status_code :: int
  body :: "error + json"

datatype fetch_outcome = Network_error error | Responded response

datatype write_outcome = Written | Refused error | Broken error string

record exec_error =
  code :: "json option"
  stdout :: string

datatype exec_outcome = Done string | Failed exec_error

record outcomes =
  fetched :: fetch_outcome
  written :: write_outcome
  executed :: exec_outcome

text \<open>
  The installation: the root directory that \<open>start\<close> computes from \<open>__dirname\<close>,
  \<open>path.normalize(path.join(a, b))\<close>, and what the n-th pipeline run meets.
\<close>

record env =
  root :: string
  join_normalize :: "string \<Rightarrow> string \<Rightarrow> string"
  meets :: "nat \<Rightarrow> outcomes"

text \<open>The result of an \<open>async\<close> function, all of which return no value here.\<close>

datatype completion = Fulfilled | Rejected error

definition emit :: "effect \<Rightarrow> world \<Rightarrow> world" where
  "emit e w = w\<lparr>trace := trace w @ [e]\<rparr>"

definition logger :: "level \<Rightarrow> message \<Rightarrow> world \<Rightarrow> world" where
  "logger l m w = emit (Log l m) w"

text \<open>\<open>lines.forEach(log)\<close>: one log call for each line, in order.\<close>

fun forEach :: "('a \<Rightarrow> world \<Rightarrow> world) \<Rightarrow> 'a list \<Rightarrow> world \<Rightarrow> world" where
  "forEach f [] w = w"
| "forEach f (x # xs) w = forEach f xs (f x w)"

text \<open>\<open>await p; rest\<close> in an \<open>async\<close> function: a rejection of \<open>p\<close> ends the function.\<close>

definition await :: "world \<times> completion \<Rightarrow> (world \<Rightarrow> world \<times> completion) \<Rightarrow> world \<times> completion" where
  "await p rest = (case p of (w, Fulfilled) \<Rightarrow> rest w | (w, Rejected e) \<Rightarrow> (w, Rejected e))"

text \<open>\<open>process.exit(c)\<close>, and an exception that no handler catches.\<close>

definition exit :: "int \<Rightarrow> world \<Rightarrow> world" where
  "exit c w = w\<lparr>status := Exited c\<rparr>"

definition uncaught :: "error \<Rightarrow> world \<Rightarrow> world" where
  "uncaught e w = w\<lparr>status := Uncaught e\<rparr>"

text \<open>\<open>client.command(args, cb)\<close>: the command is sent and its callback waits in line.\<close>

definition client_command :: "command \<Rightarrow> cont \<Rightarrow> world \<Rightarrow> world" where
  "client_command c k w = (emit (Command c) w)\<lparr>pending := pending w @ [k]\<rparr>"

subsection \<open>The code-generation compiler\<close>

text \<open>
  \<open>compileRelayGeneratedArtifacts\<close>. The promisified \<open>exec\<close> resolves with the captured
  stdout, or rejects with an error that carries the exit code and the captured stdout:
  the first is the rest of the \<open>try\<close> block, the second the \<open>catch\<close> block. Each line
  is the message of one log call (\<open>forEach\<close> also passes the index and the array, which
  the log entry leaves out).
\<close>

definition compileRelayGeneratedArtifacts :: "exec_outcome \<Rightarrow> world \<Rightarrow> world \<times> completion" where
  "compileRelayGeneratedArtifacts x w =
     (let w1 = logger INFO (Text ''Executing relay-compiler'' []) w;
          w2 = emit (Exec ''yarn run relay-compile'') w1
      in case x of
           Done out \<Rightarrow>
             (forEach (\<lambda>l. logger INFO (Text l [])) (slice 4 (- 1) (split CHR 0x0A out)) w2,
              Fulfilled)
         | Failed error \<Rightarrow>
             (if code error \<noteq> Some (JNum 0)
              then forEach (\<lambda>l. logger ERROR (Text l [])) (slice 4 (- 1) (split CHR 0x0A (stdout error))) w2
              else w2,
              Fulfilled))"

subsection \<open>The schema synchroniser\<close>

definition SCHEMA_PATH :: string where
  "SCHEMA_PATH = ''app/graph/schema.json''"

definition endpoint :: string where
  "endpoint = ''http://graphql.buildkite.localhost/v1''"

text \<open>\<open>response.ok\<close> of the HTTP client.\<close>

definition ok :: "response \<Rightarrow> bool" where
  "ok r = (200 \<le> status_code r \<and> status_code r < 300)"

text \<open>
  \<open>const { data, errors } = v\<close>: a TypeError on \<open>null\<close>, the two properties of an
  object, and \<open>undefined\<close> twice on any other value.
\<close>

fun destructure :: "json \<Rightarrow> error + (json option \<times> json option)" where
  "destructure JNull = Inl (TypeError ''Cannot destructure property of null'')"
| "destructure (JObj kvs) = Inr (get kvs ''data'', get kvs ''errors'')"
| "destructure _ = Inr (None, None)"

text \<open>\<open>JSON.stringify({ data }, null, 2)\<close>: a property whose value is \<open>undefined\<close> is left out.\<close>

definition stringify_data :: "json option \<Rightarrow> string" where
  "stringify_data data =
     stringify (JObj (case data of None \<Rightarrow> [] | Some d \<Rightarrow> [(''data'', d)]))"

text \<open>\<open>JSON.stringify(errors, null, 2)\<close>; the argument is truthy where the script calls it.\<close>

definition stringify_errors :: "json option \<Rightarrow> string" where
  "stringify_errors errors = (case errors of None \<Rightarrow> [] | Some e \<Rightarrow> stringify e)"

text \<open>
  \<open>await writeFile(path, text)\<close>, the promisified \<open>fs.writeFile\<close>: it opens the file
  for writing, which empties it, and then writes the text. A write that succeeds replaces
  the content of the file. A write that is refused before the file is opened
  (\<open>Refused\<close>) leaves the file as it was; a write that fails later (\<open>Broken\<close>)
  leaves in the file what had been written until then, possibly nothing.
\<close>

definition writeFile :: "write_outcome \<Rightarrow> string \<Rightarrow> string \<Rightarrow> world \<Rightarrow> world \<times> completion" where
  "writeFile wo p text w =
     (let w1 = emit (WriteFile p text) w
      in case wo of
           Written \<Rightarrow> (w1\<lparr>disk := (disk w1)(p \<mapsto> text)\<rparr>, Fulfilled)
         | Refused e \<Rightarrow> (w1, Rejected e)
         | Broken e left \<Rightarrow> (w1\<lparr>disk := (disk w1)(p \<mapsto> left)\<rparr>, Rejected e))"

text \<open>
  \<open>syncGraphqlSchemaToDisk\<close>: the body of its \<open>try\<close> block, in which a rejected
  \<open>await\<close> and the \<open>throw\<close> reject; and the function itself, whose \<open>catch\<close> logs the
  error and returns normally. The request is recorded by its endpoint; its method,
  headers and body are constants of the script.
\<close>

definition sync_try :: "fetch_outcome \<Rightarrow> write_outcome \<Rightarrow> world \<Rightarrow> world \<times> completion" where
  \<open>sync_try f wo w =
     (let w1 = emit (Fetch endpoint) w
      in case f of
           Network_error e \<Rightarrow> (w1, Rejected e)
         | Responded response \<Rightarrow>
             if ok response then
               (case body response of
                  Inl e \<Rightarrow> (w1, Rejected e)
                | Inr v \<Rightarrow>
                    (case destructure v of
                       Inl e \<Rightarrow> (w1, Rejected e)
                     | Inr (data, errors) \<Rightarrow>
                         if truthy errors
                         then (w1, Rejected (Error (stringify_errors errors)))
                         else await (writeFile wo SCHEMA_PATH (stringify_data data) w1) (\<lambda>w2.
                                (logger INFO (Text ''Synced current GraphQL schema to "%s"'' [S SCHEMA_PATH]) w2,
                                 Fulfilled))))
             else
               (logger ERROR
                  (Text ''Error syncing current GraphQL schema, request to "%s" failed with status code %s''
                     [S endpoint, N (status_code response)]) w1,
                Fulfilled))\<close>

definition syncGraphqlSchemaToDisk :: "fetch_outcome \<Rightarrow> write_outcome \<Rightarrow> world \<Rightarrow> world \<times> completion" where
  \<open>syncGraphqlSchemaToDisk f wo w =
     (let w1 = logger INFO (Text ''Fetching current GraphQL introspection schema from "%s"'' [S endpoint]) w
      in case sync_try f wo w1 of
           (w2, Fulfilled) \<Rightarrow> (w2, Fulfilled)
         | (w2, Rejected error) \<Rightarrow> (logger ERROR (Thrown error) w2, Fulfilled))\<close>

subsection \<open>The capability probe and the project watch\<close>

text \<open>\<open>checkCapability\<close>: the request. Its callback follows the other callbacks below.\<close>

definition checkCapability :: "world \<Rightarrow> world" where
  "checkCapability w = (emit CapabilityCheck w)\<lparr>pending := pending w @ [K_capability]\<rparr>"

text \<open>\<open>watchProject\<close>: the request, with the closure \<open>k\<close> that waits for it, and its callback.\<close>

definition watchProject :: "string \<Rightarrow> cont \<Rightarrow> world \<Rightarrow> world" where
  "watchProject p k w =
     client_command (Watch_project p) k (logger INFO (Text ''Establishing watch: %s'' [S p]) w)"

definition watchProject_callback :: "reply \<Rightarrow> world \<Rightarrow> world \<times> jsobject option" where
  \<open>watchProject_callback r w =
     (case err r of
        Some error \<Rightarrow> (exit 1 (logger ERROR (Thrown error) w), None)
      | None \<Rightarrow>
          (case resp r of
             None \<Rightarrow> (uncaught (TypeError ''Cannot use the in operator on undefined'') w, None)
           | Some response \<Rightarrow>
               (let w1 = (if has response ''warning''
                          then logger WARN (Text ''Establishing watch on "%s" generated warning: ''
                                              [V (get response ''warning'')]) w
                          else w);
                    w2 = logger INFO (Text ''Watch established with %s on "%s"''
                                        [V (get response ''watcher''), V (get response ''watch'')]) w1
                in (w2, Some response))))\<close>

subsection \<open>Subscriptions\<close>

text \<open>
  \<open>subscribe\<close> up to its \<open>await\<close>, the rest of its body once the watch is
  established, and the callbacks of the clock and of the subscribe command
  (\<open>sid\<close> is the closure's \<open>subscriptionId\<close>, \<open>cfg\<close> its \<open>subscriptionConfig\<close>).
\<close>

definition subscribe :: "env \<Rightarrow> string \<Rightarrow> sub \<Rightarrow> handler \<Rightarrow> world \<Rightarrow> world" where
  "subscribe env rootPath spec cb w =
     watchProject (join_normalize env rootPath (path spec)) (K_watch spec cb) w"

definition subscribe_resume :: "sub \<Rightarrow> handler \<Rightarrow> jsobject \<Rightarrow> world \<Rightarrow> world" where
  "subscribe_resume spec cb project w =
     client_command (Clock (get project ''watch'')) (K_clock spec project cb) w"

text \<open>
  The callback of the clock command binds its second parameter with the pattern
  \<open>{ clock: since }\<close>: when the response is \<open>undefined\<close> the binding throws before the
  body runs.
\<close>

definition clock_callback :: "sub \<Rightarrow> jsobject \<Rightarrow> handler \<Rightarrow> reply \<Rightarrow> world \<Rightarrow> world" where
  "clock_callback spec project cb r w =
     (case resp r of
        None \<Rightarrow> uncaught (TypeError ''Cannot destructure property clock of undefined'') w
      | Some response \<Rightarrow>
          (let since = get response ''clock'';
               w1 = (case err r of Some error \<Rightarrow> logger ERROR (Thrown error) w | None \<Rightarrow> w);
               cfg =
                 \<lparr>expression = expression (config spec), fields_c = fields_c (config spec),
                  since = since, relative_root = get project ''relative_path''\<rparr>
           in client_command (Subscribe (get project ''watch'') (id_s spec) cfg)
                (K_subscribe (id_s spec) cfg cb) w1))"

definition subscribe_callback :: "string \<Rightarrow> subscriptionConfig \<Rightarrow> handler \<Rightarrow> reply \<Rightarrow> world \<Rightarrow> world" where
  \<open>subscribe_callback sid cfg cb r w =
     (let w1 = (case err r of Some error \<Rightarrow> logger ERROR (Thrown error) w | None \<Rightarrow> w)
      in case resp r of
           None \<Rightarrow> uncaught (TypeError ''Cannot read property subscribe of undefined'') w1
         | Some response \<Rightarrow>
             (let w2 = logger INFO (Text ''Subscription "%s" established: %j''
                                      [V (get response ''subscribe''), V (Some (expression cfg))]) w1
              in w2\<lparr>listeners := listeners w2 @ [\<lparr>subscriptionId = sid, callback = cb\<rparr>]\<rparr>))\<close>

subsection \<open>Closing the connection\<close>

text \<open>
  \<open>client.end()\<close> of the Watchman client does more than close the socket: it first
  takes every command that still waits for its reply and calls the callback of each, in
  order, with an error and no response. These are callbacks of the script, and each of
  them ends the process on such a call, by \<open>process.exit\<close> or by an exception that
  leaves \<open>client.end()\<close> and its caller; the callbacks after it are then never called.
\<close>

definition cancelled :: reply where
  "cancelled = \<lparr>err = Some (Error ''The client was ended''), resp = None\<rparr>"

text \<open>
  \<open>client_end\<close> is \<open>client.end()\<close>, \<open>cancelCommands\<close> the loop over the waiting
  callbacks, and \<open>capability_failed\<close> the branch \<open>if (error) { ... }\<close> of the callback
  of \<open>checkCapability\<close>, which calls \<open>client.end()\<close> itself. A statement after
  \<open>client.end()\<close> runs only if the process has not ended inside it.
\<close>

function client_end :: "world \<Rightarrow> world"
  and cancelCommands :: "cont list \<Rightarrow> world \<Rightarrow> world"
  and capability_failed :: "error \<Rightarrow> world \<Rightarrow> world"
where
  "client_end w = cancelCommands (pending w) (emit End (w\<lparr>pending := []\<rparr>))"
| "cancelCommands [] w = w"
| "cancelCommands (K_capability # ks) w =
     (if status w \<noteq> Running then w
      else capability_failed (Error ''The client was ended'') w)"
| "cancelCommands (K_watch spec cb # ks) w =
     (if status w \<noteq> Running then w
      else cancelCommands ks (fst (watchProject_callback cancelled w)))"
| "cancelCommands (K_clock spec project cb # ks) w =
     (if status w \<noteq> Running then w
      else cancelCommands ks (clock_callback spec project cb cancelled w))"
| "cancelCommands (K_subscribe sid cfg cb # ks) w =
     (if status w \<noteq> Running then w
      else cancelCommands ks (subscribe_callback sid cfg cb cancelled w))"
| "capability_failed error w =
     (let w1 = client_end (logger ERROR (Thrown error) w)
      in if status w1 \<noteq> Running then w1 else exit 1 w1)"
  by pat_completeness auto

termination
  by (relation "measure (\<lambda>x. case x of
          Inl w \<Rightarrow> 3 * length (pending w) + 1
        | Inr (Inl (ks, w)) \<Rightarrow> 3 * (length ks + length (pending w))
        | Inr (Inr (e, w)) \<Rightarrow> 3 * length (pending w) + 2)")
     (simp_all add: watchProject_callback_def clock_callback_def subscribe_callback_def cancelled_def
        exit_def uncaught_def logger_def emit_def)

declare client_end.simps [simp del] capability_failed.simps [simp del]

text \<open>
  The callback of \<open>checkCapability\<close>. It returns the value it resolves the promise with,
  or nothing when the process has ended.
\<close>

definition checkCapability_callback :: "reply \<Rightarrow> world \<Rightarrow> world \<times> jsobject option option" where
  "checkCapability_callback r w =
     (case err r of
        Some error \<Rightarrow> (capability_failed error w, None)
      | None \<Rightarrow> (w, Some (resp r)))"

text \<open>
  The listener that \<open>subscribe\<close> registers, applied to an event: the log calls it
  makes and the call of the callback, if any.
\<close>

definition dispatcher :: "'cb listener \<Rightarrow> event \<Rightarrow> effect list \<times> ('cb \<times> event) option" where
  \<open>dispatcher l event =
     (if subscription event \<noteq> subscriptionId l then ([], None)
      else ([Log DEBUG (Text ''%j'' [Ev event]),
             Log INFO (Text ''Subscription "%s" triggered via: %j''
                         [S (subscription event), Names (map name (files event))])],
            Some (callback l, event)))\<close>

text \<open>The calls of callbacks that one event makes, over all listeners in order of registration.\<close>

definition invocations :: "'cb listener list \<Rightarrow> event \<Rightarrow> ('cb \<times> event) list" where
  "invocations ls event = List.map_filter (\<lambda>l. snd (dispatcher l event)) ls"

definition SUBSCRIPTIONS_frontend :: sub where
  "SUBSCRIPTIONS_frontend =
     \<lparr>id_s = ''frontend'',
      path = ''vendor/frontend/app'',
      config =
        \<lparr>expression =
           JArr [JStr ''allof'',
                 JArr [JStr ''match'', JStr ''**/*.js'', JStr ''wholename''],
                 JArr [JStr ''not'', JArr [JStr ''match'', JStr ''**/__generated__/**'', JStr ''wholename'']],
                 JArr [JStr ''not'', JArr [JStr ''empty'']],
                 JArr [JStr ''type'', JStr ''f'']],
         fields_c = JArr [JStr ''name'', JStr ''size'', JStr ''mtime_ms'', JStr ''exists'', JStr ''type'']\<rparr>\<rparr>"

definition SUBSCRIPTIONS_graph :: sub where
  "SUBSCRIPTIONS_graph =
     \<lparr>id_s = ''graph'',
      path = ''app/models/api/graph'',
      config =
        \<lparr>expression =
           JArr [JStr ''allof'',
                 JArr [JStr ''match'', JStr ''**/*.rb'', JStr ''wholename''],
                 JArr [JStr ''not'', JArr [JStr ''empty'']],
                 JArr [JStr ''type'', JStr ''f'']],
         fields_c = JArr [JStr ''name'', JStr ''size'', JStr ''mtime_ms'', JStr ''exists'', JStr ''type'']\<rparr>\<rparr>"

subsection \<open>The process\<close>

text \<open>
  The bodies of the two callbacks of \<open>start\<close>. A pipeline run is taken as one step:
  nothing else is interleaved with it.
\<close>

fun handler_body :: "handler \<Rightarrow> outcomes \<Rightarrow> world \<Rightarrow> world \<times> completion" where
  "handler_body Graph_pipeline m w =
     await (syncGraphqlSchemaToDisk (fetched m) (written m) w)
       (compileRelayGeneratedArtifacts (executed m))"
| "handler_body Frontend_pipeline m w = compileRelayGeneratedArtifacts (executed m) w"

text \<open>A promise that nobody awaits: its rejection is an uncaught failure.\<close>

definition settle :: "world \<times> completion \<Rightarrow> world" where
  "settle p = (case p of (w, Fulfilled) \<Rightarrow> w | (w, Rejected e) \<Rightarrow> uncaught e w)"

definition invoke :: "env \<Rightarrow> handler \<Rightarrow> event \<Rightarrow> world \<Rightarrow> world" where
  "invoke env cb event w = settle (handler_body cb (meets env (runs w)) (w\<lparr>runs := Suc (runs w)\<rparr>))"

text \<open>The client emits a subscription event: every listener is called, in order.\<close>

fun emit_subscription :: "env \<Rightarrow> handler listener list \<Rightarrow> event \<Rightarrow> world \<Rightarrow> world" where
  "emit_subscription env [] event w = w"
| "emit_subscription env (l # ls) event w =
     (if status w \<noteq> Running then w
      else (case dispatcher l event of
              (logs, call) \<Rightarrow>
                (let w1 = w\<lparr>trace := trace w @ logs\<rparr>;
                     w2 = (case call of None \<Rightarrow> w1 | Some (cb, ev) \<Rightarrow> invoke env cb ev w1)
                 in emit_subscription env ls event w2)))"

datatype signal = SIGINT | SIGTERM

fun signal_name :: "signal \<Rightarrow> string" where
  "signal_name SIGINT = ''SIGINT''"
| "signal_name SIGTERM = ''SIGTERM''"

text \<open>The handler that \<open>start\<close> installs for both signals (the messages are UTF-8 bytes).\<close>

definition shutdown :: "signal \<Rightarrow> world \<Rightarrow> world" where
  "shutdown signal w =
     (let w1 = emit ConsoleLog w;
          w2 = logger WARN (Text (''Received %s '' @ [CHR 0xE2, CHR 0x80, CHR 0x94] @ '' shutting down!'')
                              [S (signal_name signal)]) w1;
          w3 = client_end w2
      in if status w3 \<noteq> Running then w3
         else exit 0 (logger INFO (Text (''Bye! '' @ [CHR 0xF0, CHR 0x9F, CHR 0x91, CHR 0x8B,
                                                      CHR 0xF0, CHR 0x9F, CHR 0x8F, CHR 0xBC]) []) w3))"

text \<open>\<open>start\<close> up to its first \<open>await\<close>, and the rest of it once the capability check has resolved.\<close>

definition start :: "world \<Rightarrow> world" where
  "start w = checkCapability w"

definition start_resume :: "env \<Rightarrow> jsobject option \<Rightarrow> world \<Rightarrow> world \<times> completion" where
  "start_resume env response w =
     (case response of
        None \<Rightarrow> (w, Rejected (TypeError ''Cannot destructure property version of undefined''))
      | Some r \<Rightarrow>
          (let w1 = logger INFO (Text ''Starting GraphWatcher (Watchman: %s)'' [V (get r ''version'')]) w;
               m = meets env (runs w1)
           in await (syncGraphqlSchemaToDisk (fetched m) (written m) (w1\<lparr>runs := Suc (runs w1)\<rparr>)) (\<lambda>w2.
              await (compileRelayGeneratedArtifacts (executed m) w2) (\<lambda>w3.
                (let w4 = logger INFO (Text ''Setting up subscriptions for GraphQL / Relay filesystem events'' []) w3;
                     w5 = subscribe env (root env) SUBSCRIPTIONS_graph Graph_pipeline w4;
                     w6 = subscribe env (root env) SUBSCRIPTIONS_frontend Frontend_pipeline w5
                 in (w6, Fulfilled))))))"

text \<open>The reply to the oldest waiting command reaches its closure.\<close>

fun continue :: "env \<Rightarrow> cont \<Rightarrow> reply \<Rightarrow> world \<Rightarrow> world" where
  "continue env K_capability r w =
     (case checkCapability_callback r w of
        (w1, None) \<Rightarrow> w1
      | (w1, Some response) \<Rightarrow> settle (start_resume env response w1))"
| "continue env (K_watch spec cb) r w =
     (case watchProject_callback r w of
        (w1, None) \<Rightarrow> w1
      | (w1, Some project) \<Rightarrow> subscribe_resume spec cb project w1)"
| "continue env (K_clock spec project cb) r w = clock_callback spec project cb r w"
| "continue env (K_subscribe sid cfg cb) r w = subscribe_callback sid cfg cb r w"

text \<open>
  What reaches the process from outside: a reply of the service, a subscription event
  pushed by the service, a termination signal. A process that has ended reacts to nothing.
\<close>

datatype inbound = Reply reply | Subscription event | Signal signal

definition step :: "env \<Rightarrow> world \<Rightarrow> inbound \<Rightarrow> world" where
  "step env w i =
     (if status w \<noteq> Running then w
      else (case i of
              Reply r \<Rightarrow>
                (case pending w of
                   [] \<Rightarrow> w
                 | k # ks \<Rightarrow> continue env k r (w\<lparr>pending := ks\<rparr>))
            | Subscription event \<Rightarrow> emit_subscription env (listeners w) event w
            | Signal s \<Rightarrow> shutdown s w))"

definition boot :: "(string \<rightharpoonup> string) \<Rightarrow> world" where
  "boot fs = \<lparr>trace = [], disk = fs, status = Running, pending = [], listeners = [], runs = 0\<rparr>"

definition run :: "env \<Rightarrow> (string \<rightharpoonup> string) \<Rightarrow> inbound list \<Rightarrow> world" where
  "run env fs inputs = foldl (step env) (start (boot fs)) inputs"

subsection \<open>Observations on a trace\<close>

text \<open>The effects that a piece of the script has added to the trace.\<close>

definition effects_since :: "world \<Rightarrow> world \<Rightarrow> effect list" where
  "effects_since w w1 = drop (length (trace w)) (trace w1)"

text \<open>
  The effects of one run of the synchroniser and of one run of the compiler; they do
  not depend on the state in which the run starts.
\<close>

definition sync_effects :: "fetch_outcome \<Rightarrow> write_outcome \<Rightarrow> effect list" where
  "sync_effects f wo = trace (fst (syncGraphqlSchemaToDisk f wo (boot Map.empty)))"

definition compile_effects :: "exec_outcome \<Rightarrow> effect list" where
  "compile_effects x = trace (fst (compileRelayGeneratedArtifacts x (boot Map.empty)))"

text \<open>The listeners that \<open>start\<close> registers through its two calls of \<open>subscribe\<close>.\<close>

definition graph_listener :: "handler listener" where
  "graph_listener = \<lparr>subscriptionId = id_s SUBSCRIPTIONS_graph, callback = Graph_pipeline\<rparr>"

definition frontend_listener :: "handler listener" where
  "frontend_listener = \<lparr>subscriptionId = id_s SUBSCRIPTIONS_frontend, callback = Frontend_pipeline\<rparr>"

text \<open>The messages logged at error level.\<close>

fun error_message :: "effect \<Rightarrow> message option" where
  "error_message (Log ERROR m) = Some m"
| "error_message _ = None"

definition error_lines :: "effect list \<Rightarrow> message list" where
  "error_lines es = List.map_filter error_message es"

text \<open>How many watch-establish requests for a path the service has been sent.\<close>

definition watch_requests :: "string \<Rightarrow> world \<Rightarrow> nat" where
  "watch_requests p w = count_list (trace w) (Command (Watch_project p))"

text \<open>How many times \<open>client.end()\<close> has been called.\<close>

definition closes :: "world \<Rightarrow> nat" where
  "closes w = count_list (trace w) End"

text \<open>
  The inputs on which the script calls \<open>client.end()\<close>: a termination signal, and a
  failing reply to the capability check.
\<close>

fun closing :: "world \<Rightarrow> inbound \<Rightarrow> bool" where
  "closing w (Signal s) = (status w = Running)"
| "closing w (Reply r) =
     (status w = Running \<and> err r \<noteq> None \<and>
      (case pending w of [] \<Rightarrow> False | k # ks \<Rightarrow> k = K_capability))"
| "closing w (Subscription event) = False"

text \<open>
  The two effects with which every schema synchronisation begins, and the line it logs
  after a successful write.
\<close>

definition sync_begins :: "effect list" where
  \<open>sync_begins =
     [Log INFO (Text ''Fetching current GraphQL introspection schema from "%s"'' [S endpoint]),
      Fetch endpoint]\<close>

definition synced_line :: effect where
  \<open>synced_line = Log INFO (Text ''Synced current GraphQL schema to "%s"'' [S SCHEMA_PATH])\<close>

text \<open>The line logged for a response whose status is not a success.\<close>

definition status_line :: "int \<Rightarrow> effect" where
  \<open>status_line c =
     Log ERROR (Text ''Error syncing current GraphQL schema, request to "%s" failed with status code %s''
                  [S endpoint, N c])\<close>

text \<open>
  How many times \<open>client.end()\<close> is called when it is called with these closures
  waiting: once, and once more by the callback of the capability check when that is the
  first to be cancelled.
\<close>

fun ends :: "cont list \<Rightarrow> nat" where
  "ends (K_capability # ks) = 2"
| "ends ks = 1"

text \<open>The closures that wait when an input makes the script call \<open>client.end()\<close>.\<close>

fun waiting :: "world \<Rightarrow> inbound \<Rightarrow> cont list" where
  "waiting w (Reply r) = tl (pending w)"
| "waiting w i = pending w"

text \<open>What holds of every state that a run reaches.\<close>

definition reachable_shape :: "world \<Rightarrow> bool" where
  "reachable_shape w =
     (closes w \<le> 2 \<and>
      (status w = Running \<longrightarrow>
         closes w = 0 \<and> (pending w = [K_capability] \<or> K_capability \<notin> set (pending w))))"

subsection \<open>A sample installation\<close>

definition sample_outcomes :: outcomes where
  "sample_outcomes =
     \<lparr>fetched = Responded \<lparr>status_code = 200, body = Inr (JObj [(''data'', JObj [(''x'', JNum 1)])])\<rparr>,
      written = Written,
      executed = Done ''compiled''\<rparr>"

definition sample_env :: env where
  "sample_env = \<lparr>root = ''/repo/'', join_normalize = (\<lambda>a b. a @ b), meets = (\<lambda>n. sample_outcomes)\<rparr>"

definition answer :: "jsobject \<Rightarrow> inbound" where
  "answer r = Reply \<lparr>err = None, resp = Some r\<rparr>"

definition failure :: "string \<Rightarrow> inbound" where
  "failure text = Reply \<lparr>err = Some (Error text), resp = None\<rparr>"

text \<open>The replies that bring \<open>start\<close> to the point where both watches are established.\<close>

definition sample_watched :: "inbound list" where
  "sample_watched =
     [answer [(''version'', JStr ''4.9.0'')],
      answer [(''watch'', JStr ''/repo''), (''relative_path'', JStr ''app/models/api/graph''),
              (''watcher'', JStr ''inotify'')],
      answer [(''watch'', JStr ''/repo''), (''relative_path'', JStr ''vendor/frontend/app''),
              (''watcher'', JStr ''inotify'')]]"

text \<open>The replies that bring it to the point where both subscriptions are active.\<close>

definition sample_setup :: "inbound list" where
  "sample_setup =
     sample_watched @
     [answer [(''clock'', JStr ''c:1:1'')],
      answer [(''clock'', JStr ''c:1:2'')],
      answer [(''subscribe'', JStr ''graph'')],
      answer [(''subscribe'', JStr ''frontend'')]]"

definition sample_event :: "string \<Rightarrow> event" where
  "sample_event sid =
     \<lparr>subscription = sid,
      files = [\<lparr>name = ''b.rb'', size_f = 10, mtime_ms = 1, exists_f = True, type_f = ''f''\<rparr>,
               \<lparr>name = ''a.rb'', size_f = 20, mtime_ms = 2, exists_f = True, type_f = ''f''\<rparr>]\<rparr>"

text \<open>A failing run of the compiler: exit code 1, seven lines of output.\<close>

definition sample_failure :: exec_error where
  "sample_failure =
     \<lparr>code = Some (JNum 1),
      stdout = ''h1'' @ [CHR 0x0A] @ ''h2'' @ [CHR 0x0A] @ ''h3'' @ [CHR 0x0A] @ ''h4'' @ [CHR 0x0A]
               @ ''bad file'' @ [CHR 0x0A] @ ''worse'' @ [CHR 0x0A] @ ''footer''\<rparr>"

text \<open>A disk that holds an earlier snapshot.\<close>

definition sample_disk :: "string \<rightharpoonup> string" where
  "sample_disk = [SCHEMA_PATH \<mapsto> ''{}'']"

section \<open>Properties\<close>

subsection \<open>Lists of lines\<close>

lemma slice_4_m1: "slice 4 (- 1) xs = butlast (drop 4 xs)"
proof -
  have n: "nat (int (length xs) - 5) = length xs - 5"
    by arith
  show ?thesis
    by (simp add: slice_def Let_def butlast_conv_take min_def max_def n)
qed

lemma forEach_logger:
  "forEach (\<lambda>l. logger lv (Text l [])) ls w = w\<lparr>trace := trace w @ map (\<lambda>l. Log lv (Text l [])) ls\<rparr>"
  by (induction ls arbitrary: w) (simp_all add: logger_def emit_def)

subsection \<open>The code-generation compiler\<close>

lemma compile_failed:
  assumes "code error \<noteq> Some (JNum 0)"
  shows "compileRelayGeneratedArtifacts (Failed error) w =
           (w\<lparr>trace := trace w
                 @ [Log INFO (Text ''Executing relay-compiler'' []), Exec ''yarn run relay-compile'']
                 @ map (\<lambda>l. Log ERROR (Text l [])) (butlast (drop 4 (split CHR 0x0A (stdout error))))\<rparr>,
            Fulfilled)"
  using assms
  by (simp add: compileRelayGeneratedArtifacts_def Let_def forEach_logger slice_4_m1 logger_def emit_def)

text \<open>
  C6. When the compiler subprocess fails (the error's code is not 0), the script logs
  \<open>Executing relay-compiler\<close>, starts the subprocess, and then logs at error level the
  lines of the captured stdout without the first four and without the last one, in
  order; the promise is fulfilled and nothing else of the state changes, so the process
  keeps running and handles later events.
\<close>

theorem compile_failing_exit:
  assumes "code error \<noteq> Some (JNum 0)"
  shows "compileRelayGeneratedArtifacts (Failed error) w =
           (w\<lparr>trace := trace w
                 @ [Log INFO (Text ''Executing relay-compiler'' []), Exec ''yarn run relay-compile'']
                 @ map (\<lambda>l. Log ERROR (Text l [])) (butlast (drop 4 (split CHR 0x0A (stdout error))))\<rparr>,
            Fulfilled)"
proof -
  have lines: "slice 4 (- 1) (split CHR 0x0A (stdout error)) = butlast (drop 4 (split CHR 0x0A (stdout error)))"
    by (rule slice_4_m1)
  from assms have "compileRelayGeneratedArtifacts (Failed error) w =
      (forEach (\<lambda>l. logger ERROR (Text l [])) (butlast (drop 4 (split CHR 0x0A (stdout error))))
         (emit (Exec ''yarn run relay-compile'') (logger INFO (Text ''Executing relay-compiler'' []) w)),
       Fulfilled)"
    by (simp add: compileRelayGeneratedArtifacts_def Let_def lines)
  then show ?thesis
    by (simp add: forEach_logger logger_def emit_def)
qed

theorem compile_failing_exit_witness:
  "code sample_failure \<noteq> Some (JNum 0) \<and>
   compileRelayGeneratedArtifacts (Failed sample_failure) (boot Map.empty) =
     ((boot Map.empty)\<lparr>trace :=
         [Log INFO (Text ''Executing relay-compiler'' []), Exec ''yarn run relay-compile'',
          Log ERROR (Text ''bad file'' []), Log ERROR (Text ''worse'' [])]\<rparr>,
      Fulfilled)"
  using compile_failing_exit [of sample_failure "boot Map.empty"]
  by (simp add: boot_def sample_failure_def)

subsection \<open>Characters\<close>

lemma char_of_eq_iff: "char_of (n::nat) = c \<longleftrightarrow> n mod 256 = of_char c"
proof
  assume "char_of n = c"
  then have "of_char (char_of n :: char) = (of_char c :: nat)" by simp
  then show "n mod 256 = of_char c" by (simp add: of_char_of)
next
  assume "n mod 256 = of_char c"
  then have "of_char (char_of n :: char) = (of_char c :: nat)" by (simp add: of_char_of)
  then show "char_of n = c" by (simp only: of_char_eq_iff)
qed

subsection \<open>The schema synchroniser\<close>

lemma effects_since_append [simp]: "effects_since w (w\<lparr>trace := trace w @ es\<rparr>) = es"
  by (simp add: effects_since_def)

lemma error_lines_simps [simp]:
  "error_lines [] = []"
  "error_lines (Log ERROR m # es) = m # error_lines es"
  "error_lines (Log INFO m # es) = error_lines es"
  "error_lines (Log WARN m # es) = error_lines es"
  "error_lines (Log DEBUG m # es) = error_lines es"
  "error_lines (Fetch u # es) = error_lines es"
  "error_lines (Exec c # es) = error_lines es"
  "error_lines (WriteFile p t # es) = error_lines es"
  "error_lines (Command k # es) = error_lines es"
  "error_lines (End # es) = error_lines es"
  "error_lines (ConsoleLog # es) = error_lines es"
  "error_lines (CapabilityCheck # es) = error_lines es"
  by (simp_all add: error_lines_def List.map_filter_simps)

lemma error_lines_append [simp]: "error_lines (xs @ ys) = error_lines xs @ error_lines ys"
  by (simp add: error_lines_def List.map_filter_def)

lemma sync_network_error:
  "syncGraphqlSchemaToDisk (Network_error e) wo w =
     (w\<lparr>trace := trace w @ sync_begins @ [Log ERROR (Thrown e)]\<rparr>, Fulfilled)"
  by (simp add: syncGraphqlSchemaToDisk_def sync_try_def await_def Let_def logger_def emit_def sync_begins_def)

lemma sync_status:
  "\<not> ok r \<Longrightarrow> syncGraphqlSchemaToDisk (Responded r) wo w =
     (w\<lparr>trace := trace w @ sync_begins @ [status_line (status_code r)]\<rparr>, Fulfilled)"
  by (simp add: syncGraphqlSchemaToDisk_def sync_try_def await_def Let_def logger_def emit_def sync_begins_def status_line_def)

lemma sync_invalid_json:
  "ok r \<Longrightarrow> body r = Inl e \<Longrightarrow> syncGraphqlSchemaToDisk (Responded r) wo w =
     (w\<lparr>trace := trace w @ sync_begins @ [Log ERROR (Thrown e)]\<rparr>, Fulfilled)"
  by (simp add: syncGraphqlSchemaToDisk_def sync_try_def await_def Let_def logger_def emit_def sync_begins_def)

lemma sync_destructure_error:
  "ok r \<Longrightarrow> body r = Inr v \<Longrightarrow> destructure v = Inl e \<Longrightarrow> syncGraphqlSchemaToDisk (Responded r) wo w =
     (w\<lparr>trace := trace w @ sync_begins @ [Log ERROR (Thrown e)]\<rparr>, Fulfilled)"
  by (simp add: syncGraphqlSchemaToDisk_def sync_try_def await_def Let_def logger_def emit_def sync_begins_def)

lemma sync_errors:
  "ok r \<Longrightarrow> body r = Inr v \<Longrightarrow> destructure v = Inr (data, errors) \<Longrightarrow> truthy errors \<Longrightarrow>
   syncGraphqlSchemaToDisk (Responded r) wo w =
     (w\<lparr>trace := trace w @ sync_begins @ [Log ERROR (Thrown (Error (stringify_errors errors)))]\<rparr>, Fulfilled)"
  by (simp add: syncGraphqlSchemaToDisk_def sync_try_def await_def Let_def logger_def emit_def sync_begins_def)

lemma sync_write_refused:
  "ok r \<Longrightarrow> body r = Inr v \<Longrightarrow> destructure v = Inr (data, errors) \<Longrightarrow> \<not> truthy errors \<Longrightarrow>
   syncGraphqlSchemaToDisk (Responded r) (Refused e) w =
     (w\<lparr>trace := trace w @ sync_begins @ [WriteFile SCHEMA_PATH (stringify_data data), Log ERROR (Thrown e)]\<rparr>, Fulfilled)"
  by (simp add: syncGraphqlSchemaToDisk_def sync_try_def await_def Let_def logger_def emit_def sync_begins_def writeFile_def)

lemma sync_write_broken:
  "ok r \<Longrightarrow> body r = Inr v \<Longrightarrow> destructure v = Inr (data, errors) \<Longrightarrow> \<not> truthy errors \<Longrightarrow>
   syncGraphqlSchemaToDisk (Responded r) (Broken e left) w =
     (w\<lparr>trace := trace w @ sync_begins @ [WriteFile SCHEMA_PATH (stringify_data data), Log ERROR (Thrown e)],
        disk := (disk w)(SCHEMA_PATH \<mapsto> left)\<rparr>, Fulfilled)"
  by (simp add: syncGraphqlSchemaToDisk_def sync_try_def await_def Let_def logger_def emit_def sync_begins_def writeFile_def)

lemma sync_written:
  "ok r \<Longrightarrow> body r = Inr v \<Longrightarrow> destructure v = Inr (data, errors) \<Longrightarrow> \<not> truthy errors \<Longrightarrow>
   syncGraphqlSchemaToDisk (Responded r) Written w =
     (w\<lparr>trace := trace w @ sync_begins @ [WriteFile SCHEMA_PATH (stringify_data data), synced_line],
        disk := (disk w)(SCHEMA_PATH \<mapsto> stringify_data data)\<rparr>, Fulfilled)"
  by (simp add: syncGraphqlSchemaToDisk_def sync_try_def await_def Let_def logger_def emit_def sync_begins_def writeFile_def synced_line_def)

text \<open>Every run of the synchroniser is one of the eight above.\<close>


lemma sync_cases:
  obtains (failed) m where "syncGraphqlSchemaToDisk f wo w =
        (w\<lparr>trace := trace w @ sync_begins @ [Log ERROR m]\<rparr>, Fulfilled)"
  | (refused) t m where "syncGraphqlSchemaToDisk f wo w =
        (w\<lparr>trace := trace w @ sync_begins @ [WriteFile SCHEMA_PATH t, Log ERROR m]\<rparr>, Fulfilled)"
  | (broken) t m e left where "wo = Broken e left" "syncGraphqlSchemaToDisk f wo w =
        (w\<lparr>trace := trace w @ sync_begins @ [WriteFile SCHEMA_PATH t, Log ERROR m],
           disk := (disk w)(SCHEMA_PATH \<mapsto> left)\<rparr>, Fulfilled)"
  | (saved) t where "syncGraphqlSchemaToDisk f wo w =
        (w\<lparr>trace := trace w @ sync_begins @ [WriteFile SCHEMA_PATH t, synced_line],
           disk := (disk w)(SCHEMA_PATH \<mapsto> t)\<rparr>, Fulfilled)"
proof (cases f)
  case (Network_error e)
  then show ?thesis using sync_network_error failed by blast
next
  case (Responded r)
  show ?thesis
  proof (cases "ok r")
    case False
    then show ?thesis using sync_status Responded failed by (simp add: status_line_def)
  next
    case True
    show ?thesis
    proof (cases "body r")
      case (Inl e)
      then show ?thesis using sync_invalid_json True Responded failed by blast
    next
      case (Inr v)
      show ?thesis
      proof (cases "destructure v")
        case (Inl e)
        then show ?thesis using sync_destructure_error True Responded Inr failed by blast
      next
        case d: (Inr p)
        obtain data errors where p: "p = (data, errors)" by (cases p)
        show ?thesis
        proof (cases "truthy errors")
          case t: True
          then show ?thesis using sync_errors True Responded Inr d p failed by blast
        next
          case t: False
          show ?thesis
          proof (cases wo)
            case Written
            then show ?thesis using sync_written True Responded Inr d p t saved by blast
          next
            case (Refused e)
            then show ?thesis using sync_write_refused True Responded Inr d p t refused by blast
          next
            case (Broken e left)
            then show ?thesis using sync_write_broken True Responded Inr d p t broken by blast
          qed
        qed
      qed
    qed
  qed
qed

text \<open>
  C10, as amended. The promise of \<open>syncGraphqlSchemaToDisk\<close> is fulfilled whatever the
  HTTP exchange and the file write do. A network error, and a success response whose
  body is not valid JSON, are caught: the error is logged and the state is otherwise as
  before. Every run either logs exactly one error, or logs no error and ends with the
  line that reports the written snapshot. A run that logs an error leaves the disk as it
  was, unless the write failed after the file had been opened: then the snapshot holds
  what that write left.
\<close>

theorem sync_always_fulfils:
  "snd (syncGraphqlSchemaToDisk f wo w) = Fulfilled \<and>
   (f = Network_error e \<or> (f = Responded r \<and> ok r \<and> body r = Inl e) \<longrightarrow>
      fst (syncGraphqlSchemaToDisk f wo w) = w\<lparr>trace := trace w @ sync_begins @ [Log ERROR (Thrown e)]\<rparr>) \<and>
   ((\<exists>m. error_lines (effects_since w (fst (syncGraphqlSchemaToDisk f wo w))) = [m] \<and>
         (disk (fst (syncGraphqlSchemaToDisk f wo w)) = disk w \<or>
          (\<exists>e1 left. wo = Broken e1 left \<and>
             disk (fst (syncGraphqlSchemaToDisk f wo w)) = (disk w)(SCHEMA_PATH \<mapsto> left))))
    \<or> (error_lines (effects_since w (fst (syncGraphqlSchemaToDisk f wo w))) = [] \<and>
        last (trace (fst (syncGraphqlSchemaToDisk f wo w))) = synced_line)) \<and>
   ((\<forall>e1 left. wo \<noteq> Broken e1 left) \<and>
    error_lines (effects_since w (fst (syncGraphqlSchemaToDisk f wo w))) \<noteq> [] \<longrightarrow>
      disk (fst (syncGraphqlSchemaToDisk f wo w)) = disk w)"
proof (intro conjI)
  show "snd (syncGraphqlSchemaToDisk f wo w) = Fulfilled"
    by (rule sync_cases [of f wo w]) simp_all
  show "f = Network_error e \<or> (f = Responded r \<and> ok r \<and> body r = Inl e) \<longrightarrow>
      fst (syncGraphqlSchemaToDisk f wo w) = w\<lparr>trace := trace w @ sync_begins @ [Log ERROR (Thrown e)]\<rparr>"
    using sync_network_error sync_invalid_json by auto
  show "(\<exists>m. error_lines (effects_since w (fst (syncGraphqlSchemaToDisk f wo w))) = [m] \<and>
         (disk (fst (syncGraphqlSchemaToDisk f wo w)) = disk w \<or>
          (\<exists>e1 left. wo = Broken e1 left \<and>
             disk (fst (syncGraphqlSchemaToDisk f wo w)) = (disk w)(SCHEMA_PATH \<mapsto> left))))
    \<or> (error_lines (effects_since w (fst (syncGraphqlSchemaToDisk f wo w))) = [] \<and>
        last (trace (fst (syncGraphqlSchemaToDisk f wo w))) = synced_line)"
    by (rule sync_cases [of f wo w]) (simp_all add: effects_since_def sync_begins_def synced_line_def)
  show "(\<forall>e1 left. wo \<noteq> Broken e1 left) \<and>
    error_lines (effects_since w (fst (syncGraphqlSchemaToDisk f wo w))) \<noteq> [] \<longrightarrow>
      disk (fst (syncGraphqlSchemaToDisk f wo w)) = disk w"
    by (rule sync_cases [of f wo w]) (simp_all add: effects_since_def sync_begins_def synced_line_def)
qed

theorem sync_always_fulfils_witness:
  "snd (syncGraphqlSchemaToDisk (Network_error (Error ''ECONNREFUSED'')) Written (boot sample_disk)) = Fulfilled \<and>
   fst (syncGraphqlSchemaToDisk (Network_error (Error ''ECONNREFUSED'')) Written (boot sample_disk)) =
     (boot sample_disk)\<lparr>trace := sync_begins @ [Log ERROR (Thrown (Error ''ECONNREFUSED''))]\<rparr> \<and>
   snd (syncGraphqlSchemaToDisk
          (Responded \<lparr>status_code = 200, body = Inl (SyntaxError ''Unexpected token <'')\<rparr>) Written (boot sample_disk)) = Fulfilled \<and>
   fst (syncGraphqlSchemaToDisk
          (Responded \<lparr>status_code = 200, body = Inl (SyntaxError ''Unexpected token <'')\<rparr>) Written (boot sample_disk)) =
     (boot sample_disk)\<lparr>trace := sync_begins @ [Log ERROR (Thrown (SyntaxError ''Unexpected token <''))]\<rparr> \<and>
   disk (fst (syncGraphqlSchemaToDisk
                (Responded \<lparr>status_code = 200, body = Inr (JObj [(''data'', JNull)])\<rparr>)
                (Refused (Error ''EACCES'')) (boot sample_disk))) = disk (boot sample_disk)"
  using sync_always_fulfils [of "Network_error (Error ''ECONNREFUSED'')" Written "boot sample_disk"
          "Error ''ECONNREFUSED''"]
        sync_always_fulfils [of "Responded \<lparr>status_code = 200, body = Inl (SyntaxError ''Unexpected token <'')\<rparr>"
          Written "boot sample_disk" "SyntaxError ''Unexpected token <''"
          "\<lparr>status_code = 200, body = Inl (SyntaxError ''Unexpected token <'')\<rparr>"]
        sync_always_fulfils [of "Responded \<lparr>status_code = 200, body = Inr (JObj [(''data'', JNull)])\<rparr>"
          "Refused (Error ''EACCES'')" "boot sample_disk"]
        sync_write_refused [of "\<lparr>status_code = 200, body = Inr (JObj [(''data'', JNull)])\<rparr>"
          "JObj [(''data'', JNull)]" "Some JNull" None "Error ''EACCES''" "boot sample_disk"]
  by (simp add: boot_def ok_def get_def)

text \<open>
  C10 as stated fails in its part on the file: when the write fails after the file has
  been opened, the error is caught and logged and the promise is fulfilled, but the
  earlier snapshot is gone.
\<close>

theorem sync_broken_write_changes_snapshot:
  "snd (syncGraphqlSchemaToDisk
          (Responded \<lparr>status_code = 200, body = Inr (JObj [(''data'', JNull)])\<rparr>)
          (Broken (Error ''ENOSPC'') []) (boot sample_disk)) = Fulfilled \<and>
   error_lines (trace (fst (syncGraphqlSchemaToDisk
          (Responded \<lparr>status_code = 200, body = Inr (JObj [(''data'', JNull)])\<rparr>)
          (Broken (Error ''ENOSPC'') []) (boot sample_disk)))) = [Thrown (Error ''ENOSPC'')] \<and>
   disk (fst (syncGraphqlSchemaToDisk
          (Responded \<lparr>status_code = 200, body = Inr (JObj [(''data'', JNull)])\<rparr>)
          (Broken (Error ''ENOSPC'') []) (boot sample_disk))) SCHEMA_PATH = Some [] \<and>
   disk (boot sample_disk) SCHEMA_PATH = Some ''{}''"
  by (simp add: syncGraphqlSchemaToDisk_def sync_try_def await_def Let_def ok_def logger_def emit_def
      writeFile_def get_def boot_def sample_disk_def)

text \<open>
  C4, as amended. On a response whose status is not a success, and on a success
  response whose body is an object with a truthy \<open>errors\<close> property, the synchroniser
  logs one error (the status line, or the serialised \<open>errors\<close>), issues no file write
  and leaves the disk as it was; the promise is fulfilled: the failure is not returned
  to the caller.
\<close>

theorem sync_failure_is_contained:
  assumes "\<not> ok r \<or> (body r = Inr (JObj kvs) \<and> truthy (get kvs ''errors''))"
  shows "syncGraphqlSchemaToDisk (Responded r) wo w =
           (w\<lparr>trace := trace w @ sync_begins
                 @ [if ok r then Log ERROR (Thrown (Error (stringify_errors (get kvs ''errors''))))
                    else status_line (status_code r)]\<rparr>,
            Fulfilled)"
proof (cases "ok r")
  case False
  then show ?thesis by (simp add: sync_status)
next
  case True
  with assms have b: "body r = Inr (JObj kvs)" and t: "truthy (get kvs ''errors'')"
    by simp_all
  have "destructure (JObj kvs) = Inr (get kvs ''data'', get kvs ''errors'')"
    by simp
  from sync_errors [OF True b this t] True show ?thesis
    by simp
qed

theorem sync_failure_is_contained_witness:
  "syncGraphqlSchemaToDisk (Responded \<lparr>status_code = 500, body = Inr JNull\<rparr>) Written (boot sample_disk) =
     ((boot sample_disk)\<lparr>trace := sync_begins @ [status_line 500]\<rparr>, Fulfilled) \<and>
   syncGraphqlSchemaToDisk
     (Responded \<lparr>status_code = 200, body = Inr (JObj [(''errors'', JArr [JStr ''boom''])])\<rparr>) Written (boot sample_disk) =
     ((boot sample_disk)\<lparr>trace := sync_begins
         @ [Log ERROR (Thrown (Error (stringify (JArr [JStr ''boom'']))))]\<rparr>, Fulfilled)"
  using sync_failure_is_contained [of "\<lparr>status_code = 500, body = Inr JNull\<rparr>" "[]" Written "boot sample_disk"]
        sync_failure_is_contained [of "\<lparr>status_code = 200, body = Inr (JObj [(''errors'', JArr [JStr ''boom''])])\<rparr>"
          "[(''errors'', JArr [JStr ''boom''])]" Written "boot sample_disk"]
  by (simp add: boot_def ok_def get_def stringify_errors_def)

text \<open>
  C4 as stated fails twice: on a response with status 500 the promise is fulfilled,
  no error is returned; and a body whose \<open>errors\<close> property is \<open>null\<close> does not stop
  the write, the earlier snapshot is replaced.
\<close>

theorem sync_failure_not_returned:
  "snd (syncGraphqlSchemaToDisk
          (Responded \<lparr>status_code = 500, body = Inr (JObj [(''errors'', JArr [JStr ''boom''])])\<rparr>)
          Written (boot sample_disk)) = Fulfilled \<and>
   disk (fst (syncGraphqlSchemaToDisk
                (Responded \<lparr>status_code = 200, body = Inr (JObj [(''data'', JNum 1), (''errors'', JNull)])\<rparr>)
                Written (boot sample_disk))) SCHEMA_PATH
     = Some (''{'' @ [CHR 0x0A] @ ''  '' @ [CHR 0x22] @ ''data'' @ [CHR 0x22] @ '': 1'' @ [CHR 0x0A] @ ''}'') \<and>
   disk (boot sample_disk) SCHEMA_PATH = Some ''{}''"
  by (simp add: syncGraphqlSchemaToDisk_def sync_try_def await_def Let_def ok_def logger_def emit_def writeFile_def get_def
      boot_def sample_disk_def stringify_data_def stringify_def quote_def quote_char_def
      number_to_string_def digits.simps char_of_eq_iff)


subsection \<open>Frames of the pipeline\<close>

lemma compile_world:
  "compileRelayGeneratedArtifacts x w = (w\<lparr>trace := trace w @ compile_effects x\<rparr>, Fulfilled)"
  by (cases x)
     (simp_all add: compile_effects_def compileRelayGeneratedArtifacts_def Let_def forEach_logger
        logger_def emit_def boot_def)

lemma compile_effects_begin:
  "\<exists>lv ls. compile_effects x =
     [Log INFO (Text ''Executing relay-compiler'' []), Exec ''yarn run relay-compile'']
     @ map (\<lambda>l. Log lv (Text l [])) ls"
  by (cases x)
     (auto simp add: compile_effects_def compileRelayGeneratedArtifacts_def Let_def forEach_logger
        logger_def emit_def boot_def intro: exI [of _ "[]"])

lemma sync_effects_cases:
  "(\<exists>m. sync_effects f wo = sync_begins @ [Log ERROR m]) \<or>
   (\<exists>t m. sync_effects f wo = sync_begins @ [WriteFile SCHEMA_PATH t, Log ERROR m]) \<or>
   (\<exists>t. sync_effects f wo = sync_begins @ [WriteFile SCHEMA_PATH t, synced_line])"
  unfolding sync_effects_def
  by (rule sync_cases [of f wo "boot Map.empty"]) (simp_all add: boot_def)

lemma sync_trace:
  "trace (fst (syncGraphqlSchemaToDisk f wo w)) = trace w @ sync_effects f wo"
  by (simp add: sync_effects_def syncGraphqlSchemaToDisk_def sync_try_def await_def Let_def logger_def emit_def writeFile_def
      boot_def split: fetch_outcome.splits sum.splits prod.splits write_outcome.splits)

lemma sync_frame:
  "status (fst (syncGraphqlSchemaToDisk f wo w)) = status w"
  "pending (fst (syncGraphqlSchemaToDisk f wo w)) = pending w"
  "listeners (fst (syncGraphqlSchemaToDisk f wo w)) = listeners w"
  "runs (fst (syncGraphqlSchemaToDisk f wo w)) = runs w"
  by (rule sync_cases [of f wo w], simp_all)+

lemma sync_fulfilled: "snd (syncGraphqlSchemaToDisk f wo w) = Fulfilled"
  by (rule sync_cases [of f wo w]) simp_all

lemma handler_graph:
  "handler_body Graph_pipeline m w =
     ((fst (syncGraphqlSchemaToDisk (fetched m) (written m) w))
        \<lparr>trace := trace w @ sync_effects (fetched m) (written m) @ compile_effects (executed m)\<rparr>,
      Fulfilled)"
proof -
  obtain w1 c where s: "syncGraphqlSchemaToDisk (fetched m) (written m) w = (w1, c)"
    by (cases "syncGraphqlSchemaToDisk (fetched m) (written m) w")
  with sync_fulfilled [of "fetched m" "written m" w] have c: "c = Fulfilled"
    by simp
  from s sync_trace [of "fetched m" "written m" w]
  have t: "trace w1 = trace w @ sync_effects (fetched m) (written m)"
    by simp
  show ?thesis
    by (simp add: s c t await_def compile_world)
qed

lemma handler_frontend:
  "handler_body Frontend_pipeline m w = (w\<lparr>trace := trace w @ compile_effects (executed m)\<rparr>, Fulfilled)"
  by (simp add: compile_world)

lemma invoke_graph:
  "invoke env Graph_pipeline ev w =
     (fst (syncGraphqlSchemaToDisk (fetched (meets env (runs w))) (written (meets env (runs w)))
             (w\<lparr>runs := Suc (runs w)\<rparr>)))
       \<lparr>trace := trace w @ sync_effects (fetched (meets env (runs w))) (written (meets env (runs w)))
                 @ compile_effects (executed (meets env (runs w)))\<rparr>"
  by (simp add: invoke_def settle_def handler_graph del: handler_body.simps)

lemma invoke_frontend:
  "invoke env Frontend_pipeline ev w =
     w\<lparr>trace := trace w @ compile_effects (executed (meets env (runs w))), runs := Suc (runs w)\<rparr>"
  by (simp add: invoke_def settle_def handler_frontend del: handler_body.simps)

lemma dispatcher_other:
  "subscription event \<noteq> subscriptionId l \<Longrightarrow> dispatcher l event = ([], None)"
  by (simp add: dispatcher_def)

lemma dispatcher_same:
  "subscription event = subscriptionId l \<Longrightarrow>
   dispatcher l event = (fst (dispatcher l event), Some (callback l, event))"
  by (simp add: dispatcher_def)


lemma await_sync:
  "await (syncGraphqlSchemaToDisk f wo w) rest = rest (fst (syncGraphqlSchemaToDisk f wo w))"
  using sync_fulfilled [of f wo w]
  by (cases "syncGraphqlSchemaToDisk f wo w") (simp add: await_def)

lemma await_compile:
  "await (compileRelayGeneratedArtifacts x w) rest = rest (w\<lparr>trace := trace w @ compile_effects x\<rparr>)"
  by (simp add: compile_world await_def)

subsection \<open>Setting up the subscriptions\<close>

text \<open>
  What a successful reply does to the waiting closures and to the listeners, and the
  state that \<open>start\<close> reaches when the service answers all seven requests: the process
  is running and the listeners are the one of the graph subscription and the one of the
  frontend subscription, in this order.
\<close>

lemma step_answer_capability:
  assumes "status w = Running" and "pending w = K_capability # ks"
  shows "status (step env w (answer v)) = Running \<and>
         pending (step env w (answer v)) =
           ks @ [K_watch SUBSCRIPTIONS_graph Graph_pipeline, K_watch SUBSCRIPTIONS_frontend Frontend_pipeline] \<and>
         listeners (step env w (answer v)) = listeners w"
  using assms
  by (simp add: step_def answer_def checkCapability_callback_def start_resume_def settle_def
      await_sync await_compile Let_def subscribe_def watchProject_def client_command_def logger_def
      emit_def sync_frame)

lemma step_answer_watch:
  assumes "status w = Running" and "pending w = K_watch spec cb # ks"
  shows "status (step env w (answer p)) = Running \<and>
         pending (step env w (answer p)) = ks @ [K_clock spec p cb] \<and>
         listeners (step env w (answer p)) = listeners w"
  using assms
  by (simp add: step_def answer_def watchProject_callback_def subscribe_resume_def Let_def
      client_command_def logger_def emit_def)

lemma step_answer_clock:
  assumes "status w = Running" and "pending w = K_clock spec p cb # ks"
  shows "\<exists>cfg. status (step env w (answer c)) = Running \<and>
         pending (step env w (answer c)) = ks @ [K_subscribe (id_s spec) cfg cb] \<and>
         listeners (step env w (answer c)) = listeners w"
  using assms
  by (simp add: step_def answer_def clock_callback_def Let_def client_command_def logger_def emit_def)

lemma step_answer_subscribe:
  assumes "status w = Running" and "pending w = K_subscribe sid cfg cb # ks"
  shows "status (step env w (answer s)) = Running \<and>
         pending (step env w (answer s)) = ks \<and>
         listeners (step env w (answer s)) = listeners w @ [\<lparr>subscriptionId = sid, callback = cb\<rparr>]"
  using assms
  by (simp add: step_def answer_def subscribe_callback_def Let_def logger_def emit_def)

lemma setup_registers:
  "status (run env fs [answer v, answer p1, answer p2, answer c1, answer c2, answer s1, answer s2]) = Running \<and>
   listeners (run env fs [answer v, answer p1, answer p2, answer c1, answer c2, answer s1, answer s2])
     = [graph_listener, frontend_listener]"
proof -
  define w0 where "w0 = start (boot fs)"
  define w1 where "w1 = step env w0 (answer v)"
  define w2 where "w2 = step env w1 (answer p1)"
  define w3 where "w3 = step env w2 (answer p2)"
  define w4 where "w4 = step env w3 (answer c1)"
  define w5 where "w5 = step env w4 (answer c2)"
  define w6 where "w6 = step env w5 (answer s1)"
  define w7 where "w7 = step env w6 (answer s2)"
  have r: "run env fs [answer v, answer p1, answer p2, answer c1, answer c2, answer s1, answer s2] = w7"
    by (simp add: run_def w0_def w1_def w2_def w3_def w4_def w5_def w6_def w7_def)
  have 0: "status w0 = Running" "pending w0 = [K_capability]" "listeners w0 = []"
    by (simp_all add: w0_def start_def checkCapability_def boot_def emit_def)
  from step_answer_capability [OF 0(1) 0(2), of env v] 0(3)
  have 1: "status w1 = Running"
    "pending w1 = [K_watch SUBSCRIPTIONS_graph Graph_pipeline, K_watch SUBSCRIPTIONS_frontend Frontend_pipeline]"
    "listeners w1 = []"
    by (simp_all add: w1_def)
  from step_answer_watch [OF 1(1) 1(2), of env p1] 1(3)
  have 2: "status w2 = Running"
    "pending w2 = [K_watch SUBSCRIPTIONS_frontend Frontend_pipeline, K_clock SUBSCRIPTIONS_graph p1 Graph_pipeline]"
    "listeners w2 = []"
    by (simp_all add: w2_def)
  from step_answer_watch [OF 2(1) 2(2), of env p2] 2(3)
  have 3: "status w3 = Running"
    "pending w3 = [K_clock SUBSCRIPTIONS_graph p1 Graph_pipeline, K_clock SUBSCRIPTIONS_frontend p2 Frontend_pipeline]"
    "listeners w3 = []"
    by (simp_all add: w3_def)
  from step_answer_clock [OF 3(1) 3(2), of env c1] 3(3)
  obtain cfg1 where 4: "status w4 = Running"
    "pending w4 = [K_clock SUBSCRIPTIONS_frontend p2 Frontend_pipeline,
                   K_subscribe (id_s SUBSCRIPTIONS_graph) cfg1 Graph_pipeline]"
    "listeners w4 = []"
    by (auto simp: w4_def)
  from step_answer_clock [OF 4(1) 4(2), of env c2] 4(3)
  obtain cfg2 where 5: "status w5 = Running"
    "pending w5 = [K_subscribe (id_s SUBSCRIPTIONS_graph) cfg1 Graph_pipeline,
                   K_subscribe (id_s SUBSCRIPTIONS_frontend) cfg2 Frontend_pipeline]"
    "listeners w5 = []"
    by (auto simp: w5_def)
  from step_answer_subscribe [OF 5(1) 5(2), of env s1] 5(3)
  have 6: "status w6 = Running"
    "pending w6 = [K_subscribe (id_s SUBSCRIPTIONS_frontend) cfg2 Frontend_pipeline]"
    "listeners w6 = [graph_listener]"
    by (simp_all add: w6_def graph_listener_def)
  from step_answer_subscribe [OF 6(1) 6(2), of env s2] 6(3)
  have 7: "status w7 = Running" "listeners w7 = [graph_listener, frontend_listener]"
    by (simp_all add: w7_def frontend_listener_def)
  from r 7 show ?thesis by simp
qed

subsection \<open>The sample installation\<close>

lemma sample_running: "status (run sample_env sample_disk sample_setup) = Running"
  by code_simp

lemma sample_listeners2:
  "listeners (run sample_env sample_disk sample_setup) = [graph_listener, frontend_listener]"
  by code_simp

lemma sample_meets: "meets sample_env n = sample_outcomes"
  by (simp add: sample_env_def)


subsection \<open>Routing of events\<close>

lemma invocations_filter:
  "invocations ls event =
     map (\<lambda>l. (callback l, event)) (filter (\<lambda>l. subscriptionId l = subscription event) ls)"
  by (induction ls) (simp_all add: invocations_def List.map_filter_def dispatcher_def)

lemma filter_distinct_id:
  "distinct (map subscriptionId ls) \<Longrightarrow> A \<in> set ls \<Longrightarrow>
   filter (\<lambda>l. subscriptionId l = subscriptionId A) ls = [A]"
proof (induction ls)
  case Nil
  then show ?case by simp
next
  case (Cons l ls)
  show ?case
  proof (cases "l = A")
    case True
    from Cons.prems(1) have "subscriptionId l \<notin> subscriptionId ` set ls"
      by simp
    then have "\<forall>x \<in> set ls. subscriptionId x \<noteq> subscriptionId l"
      by (metis imageI)
    then have "filter (\<lambda>x. subscriptionId x = subscriptionId l) ls = []"
      by (simp add: filter_empty_conv)
    with True show ?thesis by simp
  next
    case False
    with Cons.prems have in_tl: "A \<in> set ls" and d: "distinct (map subscriptionId ls)"
      by simp_all
    from Cons.prems(1) have "subscriptionId l \<notin> subscriptionId ` set ls"
      by simp
    with in_tl have "subscriptionId l \<noteq> subscriptionId A"
      by (metis imageI)
    with Cons.IH [OF d in_tl] show ?thesis by simp
  qed
qed

text \<open>
  C5. Among listeners with pairwise distinct subscription ids, an event tagged with
  the id of listener \<open>A\<close> makes exactly one call of a callback: the callback of \<open>A\<close>,
  with the event as it arrived (its list of files in the order of arrival). The
  dispatcher of any other listener \<open>B\<close> makes no call, and the dispatcher of \<open>A\<close>
  ignores every event that carries another id: it logs nothing and calls nothing.
\<close>

theorem exact_routing:
  assumes "distinct (map subscriptionId ls)" and "A \<in> set ls" and "B \<in> set ls" and "A \<noteq> B"
    and "subscription event = subscriptionId A"
  shows "invocations ls event = [(callback A, event)] \<and>
         map (\<lambda>call. files (snd call)) (invocations ls event) = [files event] \<and>
         snd (dispatcher B event) = None \<and>
         (subscription other \<noteq> subscriptionId A \<longrightarrow> dispatcher A other = ([], None))"
proof (intro conjI)
  show i: "invocations ls event = [(callback A, event)]"
    using assms(5) filter_distinct_id [OF assms(1) assms(2)] by (simp add: invocations_filter)
  show "map (\<lambda>call. files (snd call)) (invocations ls event) = [files event]"
    by (simp add: i)
  have "subscriptionId B \<noteq> subscriptionId A"
    using assms(1-4) by (auto simp: distinct_map inj_on_def)
  then show "snd (dispatcher B event) = None"
    using assms(5) by (simp add: dispatcher_def)
  show "subscription other \<noteq> subscriptionId A \<longrightarrow> dispatcher A other = ([], None)"
    by (simp add: dispatcher_def)
qed


theorem exact_routing_witness:
  "invocations (listeners (run sample_env sample_disk sample_setup)) (sample_event ''graph'')
     = [(Graph_pipeline, sample_event ''graph'')] \<and>
   map (\<lambda>call. map name (files (snd call)))
     (invocations (listeners (run sample_env sample_disk sample_setup)) (sample_event ''graph''))
     = [[''b.rb'', ''a.rb'']] \<and>
   snd (dispatcher frontend_listener (sample_event ''graph'')) = None \<and>
   dispatcher graph_listener (sample_event ''frontend'') = ([], None)"
  using exact_routing [of "[graph_listener, frontend_listener]" graph_listener frontend_listener
          "sample_event ''graph''" "sample_event ''frontend''"]
  by (simp add: sample_listeners2 graph_listener_def frontend_listener_def sample_event_def
      SUBSCRIPTIONS_graph_def SUBSCRIPTIONS_frontend_def)


subsection \<open>Composition of the pipeline\<close>

text \<open>
  C8. With the two listeners that \<open>start\<close> registers (\<open>setup_registers\<close>), an event tagged \<open>graph\<close> adds to
  the trace the dispatcher's log lines, then all effects of the schema synchronisation,
  then all effects of the compiler: the compiler starts once the synchronisation has
  completed. An event tagged \<open>frontend\<close> adds the dispatcher's log lines and the effects
  of the compiler only, and leaves the disk as it was. The effects of a synchronisation
  always hold the HTTP request and never the subprocess; those of the compiler hold the
  subprocess and never an HTTP request or a file write.
\<close>

theorem pipeline_composition:
  assumes "status w = Running" and "listeners w = [graph_listener, frontend_listener]"
  shows "(subscription event = ''graph'' \<longrightarrow>
            trace (step env w (Subscription event)) =
              trace w @ fst (dispatcher graph_listener event)
                @ sync_effects (fetched (meets env (runs w))) (written (meets env (runs w)))
                @ compile_effects (executed (meets env (runs w)))) \<and>
         (subscription event = ''frontend'' \<longrightarrow>
            trace (step env w (Subscription event)) =
              trace w @ fst (dispatcher frontend_listener event)
                @ compile_effects (executed (meets env (runs w))) \<and>
            disk (step env w (Subscription event)) = disk w) \<and>
         Fetch endpoint \<in> set (sync_effects f wo) \<and>
         Exec ''yarn run relay-compile'' \<notin> set (sync_effects f wo) \<and>
         Exec ''yarn run relay-compile'' \<in> set (compile_effects x) \<and>
         Fetch endpoint \<notin> set (compile_effects x) \<and>
         (\<forall>p t. WriteFile p t \<notin> set (compile_effects x))"
proof (intro conjI impI allI)
  assume g: "subscription event = ''graph''"
  have d1: "dispatcher graph_listener event =
              (fst (dispatcher graph_listener event), Some (Graph_pipeline, event))"
    using g dispatcher_same [of event graph_listener]
    by (simp add: graph_listener_def SUBSCRIPTIONS_graph_def)
  have d2: "dispatcher frontend_listener event = ([], None)"
    using g by (simp add: dispatcher_other frontend_listener_def SUBSCRIPTIONS_frontend_def)
  show "trace (step env w (Subscription event)) =
          trace w @ fst (dispatcher graph_listener event)
            @ sync_effects (fetched (meets env (runs w))) (written (meets env (runs w)))
            @ compile_effects (executed (meets env (runs w)))"
    using assms
    apply (simp add: step_def)
    apply (subst d1)
    apply (simp add: invoke_graph sync_frame d2 Let_def)
    done
next
  assume f: "subscription event = ''frontend''"
  have d1: "dispatcher graph_listener event = ([], None)"
    using f by (simp add: dispatcher_other graph_listener_def SUBSCRIPTIONS_graph_def)
  have d2: "dispatcher frontend_listener event =
              (fst (dispatcher frontend_listener event), Some (Frontend_pipeline, event))"
    using f dispatcher_same [of event frontend_listener]
    by (simp add: frontend_listener_def SUBSCRIPTIONS_frontend_def)
  have st: "step env w (Subscription event) =
              w\<lparr>trace := trace w @ fst (dispatcher frontend_listener event)
                     @ compile_effects (executed (meets env (runs w))),
                runs := Suc (runs w)\<rparr>"
    using assms
    apply (simp add: step_def d1)
    apply (subst d2)
    apply (simp add: invoke_frontend Let_def)
    done
  show "trace (step env w (Subscription event)) =
          trace w @ fst (dispatcher frontend_listener event)
            @ compile_effects (executed (meets env (runs w)))"
    by (simp add: st)
  show "disk (step env w (Subscription event)) = disk w"
    by (simp add: st)
next
  show "Fetch endpoint \<in> set (sync_effects f wo)"
    using sync_effects_cases [of f wo] by (auto simp: sync_begins_def)
  show "Exec ''yarn run relay-compile'' \<notin> set (sync_effects f wo)"
    using sync_effects_cases [of f wo] by (auto simp: sync_begins_def synced_line_def)
  show "Exec ''yarn run relay-compile'' \<in> set (compile_effects x)"
    using compile_effects_begin [of x] by auto
  show "Fetch endpoint \<notin> set (compile_effects x)"
    using compile_effects_begin [of x] by auto
  show "\<And>p t. WriteFile p t \<notin> set (compile_effects x)"
    using compile_effects_begin [of x] by auto
qed

theorem pipeline_composition_witness:
  "status (run sample_env sample_disk sample_setup) = Running \<and>
   listeners (run sample_env sample_disk sample_setup) = [graph_listener, frontend_listener] \<and>
   trace (step sample_env (run sample_env sample_disk sample_setup) (Subscription (sample_event ''graph''))) =
     trace (run sample_env sample_disk sample_setup)
       @ fst (dispatcher graph_listener (sample_event ''graph''))
       @ sync_effects (fetched sample_outcomes) (written sample_outcomes)
       @ compile_effects (executed sample_outcomes) \<and>
   trace (step sample_env (run sample_env sample_disk sample_setup) (Subscription (sample_event ''frontend''))) =
     trace (run sample_env sample_disk sample_setup)
       @ fst (dispatcher frontend_listener (sample_event ''frontend''))
       @ compile_effects (executed sample_outcomes) \<and>
   disk (step sample_env (run sample_env sample_disk sample_setup) (Subscription (sample_event ''frontend''))) =
     disk (run sample_env sample_disk sample_setup)"
  using pipeline_composition [OF sample_running sample_listeners2, of "sample_event ''graph''" sample_env]
        pipeline_composition [OF sample_running sample_listeners2, of "sample_event ''frontend''" sample_env]
  by (simp add: sample_running sample_listeners2 sample_event_def sample_meets)


subsection \<open>The project watch\<close>

text \<open>
  C1, as amended. \<open>watchProject\<close> keeps no cache: every call for a path sends one more
  watch-project command for that path, and a call resolves with the response that the
  service gives to its own command.
\<close>

theorem watch_not_cached:
  "watch_requests p (watchProject p k w) = Suc (watch_requests p w) \<and>
   (err r = None \<and> resp r = Some response \<longrightarrow> snd (watchProject_callback r w) = Some response)"
  by (simp add: watch_requests_def watchProject_def client_command_def logger_def emit_def
      watchProject_callback_def Let_def)

theorem watch_not_cached_witness:
  "watch_requests ''/repo/app'' (watchProject ''/repo/app'' (K_watch SUBSCRIPTIONS_graph Graph_pipeline) (boot sample_disk)) = 1 \<and>
   snd (watchProject_callback \<lparr>err = None, resp = Some [(''watch'', JStr ''/repo'')]\<rparr> (boot sample_disk))
     = Some [(''watch'', JStr ''/repo'')]"
  using watch_not_cached [of "''/repo/app''" "K_watch SUBSCRIPTIONS_graph Graph_pipeline" "boot sample_disk"
          "\<lparr>err = None, resp = Some [(''watch'', JStr ''/repo'')]\<rparr>" "[(''watch'', JStr ''/repo'')]"]
  by (simp add: watch_requests_def boot_def)

text \<open>C1 as stated fails: two calls for the same path send two commands.\<close>

theorem watch_twice_two_requests:
  "watch_requests ''/repo/app''
     (watchProject ''/repo/app'' (K_watch SUBSCRIPTIONS_graph Graph_pipeline)
        (watchProject ''/repo/app'' (K_watch SUBSCRIPTIONS_graph Graph_pipeline) (boot sample_disk))) = 2"
  by (simp add: watch_requests_def watchProject_def client_command_def logger_def emit_def boot_def)

subsection \<open>Failures of the clock and of the subscribe command\<close>

text \<open>
  C2. When the service answers the clock command with an error (the callback then
  receives no response), the parameter pattern of the callback throws: the process
  ends with an uncaught TypeError and the error of the service is never logged. When
  it answers the subscribe command with an error, the error is logged but the next
  statement reads a property of the missing response, and the process ends likewise.
\<close>

theorem clock_failure_uncaught:
  "status (run sample_env sample_disk (sample_watched @ [failure ''unable to resolve root'']))
     = Uncaught (TypeError ''Cannot destructure property clock of undefined'') \<and>
   error_lines (trace (run sample_env sample_disk (sample_watched @ [failure ''unable to resolve root'']))) = [] \<and>
   status (run sample_env sample_disk
             (sample_watched @ [answer [(''clock'', JStr ''c:1:1'')], answer [(''clock'', JStr ''c:1:2'')],
                                failure ''unable to subscribe'']))
     = Uncaught (TypeError ''Cannot read property subscribe of undefined'')"
  by code_simp

subsection \<open>Closing the connection\<close>

lemma closes_trace [simp]: "closes (w\<lparr>trace := t\<rparr>) = count_list t End"
  by (simp add: closes_def)

lemma closes_frame [simp]:
  "closes (w\<lparr>pending := p\<rparr>) = closes w"
  "closes (w\<lparr>listeners := l\<rparr>) = closes w"
  "closes (w\<lparr>runs := n\<rparr>) = closes w"
  "closes (w\<lparr>status := s\<rparr>) = closes w"
  "closes (w\<lparr>disk := d\<rparr>) = closes w"
  by (simp_all add: closes_def)

lemma closes_emit: "closes (emit e w) = closes w + (if e = End then 1 else 0)"
  by (simp add: closes_def emit_def)

lemma closes_logger [simp]: "closes (logger lv m w) = closes w"
  by (simp add: logger_def closes_emit)

lemma closes_client_command [simp]: "closes (client_command c k w) = closes w"
  by (simp add: client_command_def closes_emit)

lemma no_End_compile: "count_list (compile_effects x) End = 0"
proof -
  obtain lv ls where "compile_effects x =
     [Log INFO (Text ''Executing relay-compiler'' []), Exec ''yarn run relay-compile'']
     @ map (\<lambda>l. Log lv (Text l [])) ls"
    using compile_effects_begin [of x] by blast
  then have "End \<notin> set (compile_effects x)" by auto
  then show ?thesis by (metis count_list_0_iff)
qed

lemma no_End_sync: "count_list (sync_effects f wo) End = 0"
proof -
  have "End \<notin> set (sync_effects f wo)"
    using sync_effects_cases [of f wo] by (auto simp: sync_begins_def synced_line_def)
  then show ?thesis by (metis count_list_0_iff)
qed

lemma closes_sync [simp]: "closes (fst (syncGraphqlSchemaToDisk f wo w)) = closes w"
  by (simp add: closes_def sync_trace no_End_sync)

lemma closes_invoke [simp]: "closes (invoke env cb ev w) = closes w"
  by (cases cb) (simp_all add: invoke_graph invoke_frontend no_End_sync no_End_compile closes_def)

lemma closes_emit_subscription [simp]: "closes (emit_subscription env ls ev w) = closes w"
proof (induction ls arbitrary: w)
  case Nil
  show ?case by simp
next
  case (Cons l ls)
  obtain logs call where d: "dispatcher l ev = (logs, call)"
    by (cases "dispatcher l ev")
  then have "count_list logs End = 0"
    by (auto simp: dispatcher_def split: if_splits)
  then have c: "closes (w\<lparr>trace := trace w @ logs\<rparr>) = closes w"
    by (simp add: closes_def)
  show ?case
  proof (cases call)
    case None
    with d c show ?thesis by (simp add: Cons.IH del: closes_trace)
  next
    case (Some p)
    obtain cb e where "p = (cb, e)" by (cases p)
    with Some d c show ?thesis by (simp add: Cons.IH del: closes_trace)
  qed
qed

lemma closes_append_none: "count_list es End = 0 \<Longrightarrow> closes (w\<lparr>trace := trace w @ es\<rparr>) = closes w"
  by (simp add: closes_def)

lemma closes_start_resume [simp]: "closes (settle (start_resume env response w)) = closes w"
proof (cases response)
  case None
  then show ?thesis by (simp add: start_resume_def settle_def uncaught_def)
next
  case (Some r)
  then show ?thesis
    by (simp add: start_resume_def settle_def await_sync await_compile Let_def
        subscribe_def watchProject_def closes_append_none no_End_compile del: closes_trace)
qed


lemma frame_logger [simp]:
  "status (logger lv m w) = status w" "pending (logger lv m w) = pending w"
  by (simp_all add: logger_def emit_def)

lemma frame_emit [simp]:
  "status (emit e w) = status w" "pending (emit e w) = pending w"
  by (simp_all add: emit_def)

lemma cancelCommands_ended: "status w \<noteq> Running \<Longrightarrow> cancelCommands ks w = w"
proof (cases ks)
  case Nil
  then show ?thesis by simp
next
  case (Cons k ks1)
  assume "status w \<noteq> Running"
  with Cons show ?thesis by (cases k) simp_all
qed

lemma client_end_idle:
  "pending w = [] \<Longrightarrow> client_end w = emit End w"
  by (simp add: client_end.simps emit_def)

lemma client_end_cases:
  assumes "status w = Running"
  shows "client_end w =
     (case pending w of
        [] \<Rightarrow> emit End w
      | K_capability # ks \<Rightarrow>
          exit 1 (emit End (logger ERROR (Thrown (Error ''The client was ended'')) (emit End (w\<lparr>pending := []\<rparr>))))
      | K_watch spec cb # ks \<Rightarrow>
          exit 1 (logger ERROR (Thrown (Error ''The client was ended'')) (emit End (w\<lparr>pending := []\<rparr>)))
      | K_clock spec project cb # ks \<Rightarrow>
          uncaught (TypeError ''Cannot destructure property clock of undefined'') (emit End (w\<lparr>pending := []\<rparr>))
      | K_subscribe sid cfg cb # ks \<Rightarrow>
          uncaught (TypeError ''Cannot read property subscribe of undefined'')
            (logger ERROR (Thrown (Error ''The client was ended'')) (emit End (w\<lparr>pending := []\<rparr>))))"
proof (cases "pending w")
  case Nil
  then show ?thesis by (simp add: client_end.simps emit_def)
next
  case (Cons k ks)
  show ?thesis
  proof (cases k)
    case K_capability
    with Cons assms show ?thesis
      by (simp add: client_end.simps capability_failed.simps exit_def emit_def logger_def)
  next
    case (K_watch spec cb)
    with Cons assms show ?thesis
      by (simp add: client_end.simps watchProject_callback_def cancelled_def exit_def emit_def logger_def
          cancelCommands_ended)
  next
    case (K_clock spec project cb)
    with Cons assms show ?thesis
      by (simp add: client_end.simps clock_callback_def cancelled_def uncaught_def emit_def
          cancelCommands_ended)
  next
    case (K_subscribe sid cfg cb)
    with Cons assms show ?thesis
      by (simp add: client_end.simps subscribe_callback_def cancelled_def uncaught_def emit_def logger_def
          cancelCommands_ended)
  qed
qed

lemma closes_client_end:
  "status w = Running \<Longrightarrow> closes (client_end w) = closes w + ends (pending w)"
  by (simp add: client_end_cases closes_emit exit_def uncaught_def split: list.splits cont.splits)

lemma status_client_end:
  "status w = Running \<Longrightarrow> status (client_end w) = Running \<longleftrightarrow> pending w = []"
  by (simp add: client_end_cases exit_def uncaught_def split: list.splits cont.splits)

lemma trace_client_end:
  "status w = Running \<Longrightarrow> \<exists>es. trace (client_end w) = trace w @ es"
  by (simp add: client_end_cases exit_def uncaught_def emit_def logger_def split: list.splits cont.splits)

lemma capability_failed_cases:
  assumes "status w = Running"
  shows "capability_failed e w =
           (let w1 = client_end (logger ERROR (Thrown e) w)
            in if pending w = [] then exit 1 w1 else w1)"
  using assms status_client_end [of "logger ERROR (Thrown e) w"]
  by (auto simp add: capability_failed.simps Let_def)

lemma closes_capability_failed:
  "status w = Running \<Longrightarrow> closes (capability_failed e w) = closes w + ends (pending w)"
  by (simp add: capability_failed_cases closes_client_end Let_def exit_def)

lemma status_capability_failed:
  "status w = Running \<Longrightarrow> status (capability_failed e w) \<noteq> Running"
  using status_client_end [of "logger ERROR (Thrown e) w"]
  by (simp add: capability_failed_cases Let_def exit_def)

lemma closes_continue:
  assumes "status w = Running"
  shows "closes (continue env k r w) =
           closes w + (if k = K_capability \<and> err r \<noteq> None then ends (pending w) else 0)"
proof (cases k)
  case K_capability
  with assms show ?thesis
    by (cases "err r") (simp_all add: checkCapability_callback_def closes_capability_failed)
next
  case (K_watch spec cb)
  then show ?thesis
    by (simp add: watchProject_callback_def exit_def uncaught_def subscribe_resume_def Let_def
        split: option.splits)
next
  case (K_clock spec project cb)
  then show ?thesis
    by (simp add: clock_callback_def uncaught_def Let_def split: option.splits)
next
  case (K_subscribe sid cfg cb)
  then show ?thesis
    by (simp add: subscribe_callback_def uncaught_def Let_def split: option.splits)
qed

lemma closes_shutdown:
  "status w = Running \<Longrightarrow> closes (shutdown s w) = closes w + ends (pending w)"
  by (simp add: shutdown_def Let_def exit_def closes_client_end closes_emit)

lemma status_shutdown: "status w = Running \<Longrightarrow> status (shutdown s w) \<noteq> Running"
  by (simp add: shutdown_def Let_def exit_def)

lemma closes_step:
  "closes (step env w i) = closes w + (if closing w i then ends (waiting w i) else 0)"
proof (cases "status w = Running")
  case False
  then show ?thesis by (cases i) (simp_all add: step_def)
next
  case True
  show ?thesis
  proof (cases i)
    case (Reply r)
    with True show ?thesis
      by (cases "pending w") (simp_all add: step_def closes_continue)
  next
    case (Subscription ev)
    with True show ?thesis by (simp add: step_def)
  next
    case (Signal s)
    with True show ?thesis by (simp add: step_def closes_shutdown)
  qed
qed

lemma closing_stops: "closing w i \<Longrightarrow> status (step env w i) \<noteq> Running"
proof (cases i)
  case (Reply r)
  assume "closing w i"
  with Reply obtain ks e where "status w = Running" "pending w = K_capability # ks" "err r = Some e"
    by (auto split: list.splits)
  with Reply show ?thesis
    by (simp add: step_def checkCapability_callback_def status_capability_failed)
next
  case (Subscription ev)
  assume "closing w i"
  with Subscription show ?thesis by simp
next
  case (Signal s)
  assume "closing w i"
  with Signal show ?thesis by (simp add: step_def status_shutdown)
qed

lemma ends_le: "ends ks \<le> 2"
  by (cases ks rule: ends.cases) simp_all

lemma pending_invoke [simp]: "pending (invoke env cb ev w) = pending w"
  by (cases cb) (simp_all add: invoke_graph invoke_frontend sync_frame)

lemma pending_emit_subscription [simp]: "pending (emit_subscription env ls ev w) = pending w"
proof (induction ls arbitrary: w)
  case Nil
  show ?case by simp
next
  case (Cons l ls)
  obtain logs call where d: "dispatcher l ev = (logs, call)"
    by (cases "dispatcher l ev")
  show ?case
  proof (cases call)
    case None
    with d show ?thesis by (simp add: Cons.IH)
  next
    case (Some p)
    obtain cb e where "p = (cb, e)" by (cases p)
    with Some d show ?thesis by (simp add: Cons.IH)
  qed
qed

lemma pending_start_resume:
  "K_capability \<notin> set (pending w) \<Longrightarrow> K_capability \<notin> set (pending (settle (start_resume env response w)))"
proof (cases response)
  case None
  assume "K_capability \<notin> set (pending w)"
  with None show ?thesis by (simp add: start_resume_def settle_def uncaught_def)
next
  case (Some r)
  assume "K_capability \<notin> set (pending w)"
  with Some show ?thesis
    by (simp add: start_resume_def settle_def await_sync await_compile Let_def
        subscribe_def watchProject_def client_command_def logger_def emit_def sync_frame)
qed

lemma pending_continue:
  assumes "K_capability \<notin> set (pending w)" and "k = K_capability \<longrightarrow> err r = None"
  shows "K_capability \<notin> set (pending (continue env k r w))"
proof (cases k)
  case K_capability
  with assms show ?thesis
    by (simp add: checkCapability_callback_def pending_start_resume)
next
  case (K_watch spec cb)
  with assms(1) show ?thesis
    by (simp add: watchProject_callback_def exit_def uncaught_def subscribe_resume_def Let_def
        client_command_def logger_def emit_def split: option.splits)
next
  case (K_clock spec project cb)
  with assms(1) show ?thesis
    by (simp add: clock_callback_def uncaught_def Let_def client_command_def logger_def emit_def
        split: option.splits)
next
  case (K_subscribe sid cfg cb)
  with assms(1) show ?thesis
    by (simp add: subscribe_callback_def uncaught_def Let_def logger_def emit_def split: option.splits)
qed

lemma shape_step: "reachable_shape w \<Longrightarrow> reachable_shape (step env w i)"
proof (cases "status w = Running")
  case False
  assume "reachable_shape w"
  with False show ?thesis by (simp add: step_def)
next
  case True
  assume s: "reachable_shape w"
  with True have z: "closes w = 0"
    and p: "pending w = [K_capability] \<or> K_capability \<notin> set (pending w)"
    by (simp_all add: reachable_shape_def)
  show ?thesis
  proof (cases "closing w i")
    case c: True
    from closing_stops [OF c] have "status (step env w i) \<noteq> Running" .
    moreover have "closes (step env w i) \<le> 2"
      using closes_step [of env w i] z ends_le [of "waiting w i"] by simp
    ultimately show ?thesis by (simp add: reachable_shape_def)
  next
    case c: False
    from c closes_step [of env w i] z have z1: "closes (step env w i) = 0"
      by simp
    have "pending (step env w i) = [K_capability] \<or> K_capability \<notin> set (pending (step env w i))"
    proof (cases i)
      case (Signal sg)
      with c True show ?thesis by simp
    next
      case (Subscription ev)
      with True p show ?thesis by (simp add: step_def)
    next
      case (Reply r)
      show ?thesis
      proof (cases "pending w")
        case Nil
        with Reply True show ?thesis by (simp add: step_def)
      next
        case (Cons k ks)
        from p Cons have ks: "K_capability \<notin> set ks"
          by auto
        from c Reply True Cons have e: "k = K_capability \<longrightarrow> err r = None"
          by auto
        have "K_capability \<notin> set (pending (continue env k r (w\<lparr>pending := ks\<rparr>)))"
          by (rule pending_continue) (simp_all add: ks e)
        with Reply True Cons show ?thesis by (simp add: step_def)
      qed
    qed
    with z1 show ?thesis by (simp add: reachable_shape_def)
  qed
qed

lemma shape_run: "reachable_shape (run env fs inputs)"
proof -
  have "reachable_shape w \<Longrightarrow> reachable_shape (foldl (step env) w inputs)" for w
    by (induction inputs arbitrary: w) (simp_all add: shape_step)
  moreover have "reachable_shape (start (boot fs))"
    by (simp add: reachable_shape_def start_def checkCapability_def boot_def emit_def closes_def)
  ultimately show ?thesis by (simp add: run_def)
qed

text \<open>
  C9, as amended. \<open>client.end()\<close> is called on two paths only: by the handler of a
  termination signal and by the failure branch of the capability check. Processing one
  input calls it exactly when the process is running and the input is a termination
  signal or a failing reply to the capability check; the process has then ended when
  the step is over. The call is made once, and a second time when the capability check
  is the first command that the call cancels: its callback then runs the failure branch
  inside the first call. No other input, hence no other component, calls it; over a
  whole run it is called at most twice, and never while the process goes on running.
\<close>

theorem connection_closing:
  "closes (step env w i) = closes w + (if closing w i then ends (waiting w i) else 0) \<and>
   (closing w i \<longrightarrow> status (step env w i) \<noteq> Running) \<and>
   closes (run env fs inputs) \<le> 2 \<and>
   (closes (run env fs inputs) \<noteq> 0 \<longrightarrow> status (run env fs inputs) \<noteq> Running)"
proof (intro conjI impI)
  show "closes (step env w i) = closes w + (if closing w i then ends (waiting w i) else 0)"
    by (rule closes_step)
  show "closing w i \<Longrightarrow> status (step env w i) \<noteq> Running"
    by (rule closing_stops)
  show "closes (run env fs inputs) \<le> 2"
    using shape_run [of env fs inputs] by (simp add: reachable_shape_def)
  show "closes (run env fs inputs) \<noteq> 0 \<Longrightarrow> status (run env fs inputs) \<noteq> Running"
    using shape_run [of env fs inputs] by (auto simp add: reachable_shape_def)
qed


lemma sample_idle: "pending (run sample_env sample_disk sample_setup) = []"
  by code_simp

theorem connection_closing_witness:
  "closing (run sample_env sample_disk sample_setup) (Signal SIGTERM) \<and>
   closes (step sample_env (run sample_env sample_disk sample_setup) (Signal SIGTERM)) =
     closes (run sample_env sample_disk sample_setup) + 1 \<and>
   status (step sample_env (run sample_env sample_disk sample_setup) (Signal SIGTERM)) \<noteq> Running \<and>
   closes (run sample_env sample_disk (sample_setup @ [Signal SIGTERM, Signal SIGINT])) \<le> 2 \<and>
   closing (start (boot sample_disk)) (Signal SIGINT) \<and>
   closes (step sample_env (start (boot sample_disk)) (Signal SIGINT)) =
     closes (start (boot sample_disk)) + 2 \<and>
   closing (start (boot sample_disk)) (failure ''watchman not found'') \<and>
   closes (step sample_env (start (boot sample_disk)) (failure ''watchman not found'')) =
     closes (start (boot sample_disk)) + 1"
  using connection_closing [of sample_env "run sample_env sample_disk sample_setup" "Signal SIGTERM"
          sample_disk "sample_setup @ [Signal SIGTERM, Signal SIGINT]"]
        connection_closing [of sample_env "start (boot sample_disk)" "Signal SIGINT"]
        connection_closing [of sample_env "start (boot sample_disk)" "failure ''watchman not found''"]
  by (simp add: sample_running sample_idle failure_def start_def checkCapability_def boot_def emit_def)

text \<open>
  C9 as stated fails: when the capability check fails, \<open>checkCapability\<close> calls
  \<open>client.end()\<close> itself, without any signal.
\<close>

theorem probe_failure_closes:
  "trace (run sample_env sample_disk [failure ''watchman not found'']) =
     [CapabilityCheck, Log ERROR (Thrown (Error ''watchman not found'')), End] \<and>
   status (run sample_env sample_disk [failure ''watchman not found'']) = Exited 1"
  by code_simp

text \<open>
  A signal that arrives while the capability check waits for its reply: the handler
  calls \<open>client.end()\<close>, which cancels the check; the callback of the check logs the
  error, calls \<open>client.end()\<close> again and exits with status 1.
\<close>

lemma signal_during_probe:
  "trace (run sample_env sample_disk [Signal SIGTERM]) =
     [CapabilityCheck, ConsoleLog,
      Log WARN (Text (''Received %s '' @ [CHR 0xE2, CHR 0x80, CHR 0x94] @ '' shutting down!'') [S ''SIGTERM'']),
      End, Log ERROR (Thrown (Error ''The client was ended'')), End] \<and>
   status (run sample_env sample_disk [Signal SIGTERM]) = Exited 1"
  by code_simp

subsection \<open>Errors and log lines\<close>

text \<open>
  C3 as stated fails: a failing compiler whose stdout has at most five lines leaves no
  log line after the one that announces the run, and no line at error level; its trace
  is that of a successful run with the same output.
\<close>

theorem compile_failure_silent:
  "trace (fst (compileRelayGeneratedArtifacts
                 (Failed \<lparr>code = Some (JNum 1), stdout = ''error Command failed with exit code 1.''\<rparr>)
                 (boot sample_disk)))
     = [Log INFO (Text ''Executing relay-compiler'' []), Exec ''yarn run relay-compile''] \<and>
   error_lines (trace (fst (compileRelayGeneratedArtifacts
                 (Failed \<lparr>code = Some (JNum 1), stdout = ''error Command failed with exit code 1.''\<rparr>)
                 (boot sample_disk)))) = [] \<and>
   compileRelayGeneratedArtifacts
     (Failed \<lparr>code = Some (JNum 1), stdout = ''error Command failed with exit code 1.''\<rparr>) (boot sample_disk)
     = compileRelayGeneratedArtifacts (Done ''error Command failed with exit code 1.'') (boot sample_disk)"
  by (simp add: compileRelayGeneratedArtifacts_def Let_def slice_def logger_def emit_def boot_def)

lemma trace_cancelCommands: "\<exists>es. trace (cancelCommands ks w) = trace w @ es"
proof (cases "status w = Running")
  case False
  then show ?thesis by (simp add: cancelCommands_ended)
next
  case True
  show ?thesis
  proof (cases ks)
    case Nil
    then show ?thesis by simp
  next
    case (Cons k ks1)
    show ?thesis
    proof (cases k)
      case K_capability
      have "status (logger ERROR (Thrown (Error ''The client was ended'')) w) = Running"
        using True by simp
      from trace_client_end [OF this] K_capability Cons True show ?thesis
        by (auto simp add: capability_failed.simps Let_def exit_def logger_def emit_def)
    next
      case (K_watch spec cb)
      with Cons True show ?thesis
        by (simp add: watchProject_callback_def cancelled_def exit_def logger_def emit_def
            cancelCommands_ended)
    next
      case (K_clock spec project cb)
      with Cons True show ?thesis
        by (simp add: clock_callback_def cancelled_def uncaught_def cancelCommands_ended)
    next
      case (K_subscribe sid cfg cb)
      with Cons True show ?thesis
        by (simp add: subscribe_callback_def cancelled_def uncaught_def logger_def emit_def
            cancelCommands_ended)
    qed
  qed
qed

lemma trace_capability_failed:
  "\<exists>es. trace (capability_failed e w) = trace w @ Log ERROR (Thrown e) # End # es"
proof -
  obtain es where "trace (cancelCommands (pending w)
      (emit End (logger ERROR (Thrown e) w\<lparr>pending := []\<rparr>))) =
      trace (emit End (logger ERROR (Thrown e) w\<lparr>pending := []\<rparr>)) @ es"
    using trace_cancelCommands by blast
  then show ?thesis
    by (simp add: capability_failed.simps client_end.simps Let_def exit_def logger_def emit_def)
qed

text \<open>
  C3, as amended. An error passed to the callback of the capability check, of the
  project watch and of the subscribe command is logged at error level; a schema
  synchronisation that does not end with the line reporting the written snapshot has
  logged an error; a failing compiler is logged through its captured stdout only, one
  error line for each line of stdout other than the first four and the last.
\<close>

theorem detected_errors_logged:
  "(err r = Some e \<longrightarrow>
      Log ERROR (Thrown e) \<in> set (effects_since w (fst (checkCapability_callback r w))) \<and>
      Log ERROR (Thrown e) \<in> set (effects_since w (fst (watchProject_callback r w))) \<and>
      Log ERROR (Thrown e) \<in> set (effects_since w (subscribe_callback sid cfg cb r w))) \<and>
   (last (trace (fst (syncGraphqlSchemaToDisk f wo w))) \<noteq> synced_line \<longrightarrow>
      error_lines (effects_since w (fst (syncGraphqlSchemaToDisk f wo w))) \<noteq> []) \<and>
   (code error \<noteq> Some (JNum 0) \<longrightarrow>
      error_lines (effects_since w (fst (compileRelayGeneratedArtifacts (Failed error) w))) =
        map (\<lambda>l. Text l []) (butlast (drop 4 (split CHR 0x0A (stdout error)))))"
proof (intro conjI impI)
  assume e: "err r = Some e"
  show "Log ERROR (Thrown e) \<in> set (effects_since w (fst (checkCapability_callback r w)))"
    using e trace_capability_failed [of e w]
    by (auto simp add: checkCapability_callback_def effects_since_def)
  show "Log ERROR (Thrown e) \<in> set (effects_since w (fst (watchProject_callback r w)))"
    using e by (simp add: watchProject_callback_def effects_since_def exit_def logger_def emit_def)
  show "Log ERROR (Thrown e) \<in> set (effects_since w (subscribe_callback sid cfg cb r w))"
    using e
    by (simp add: subscribe_callback_def effects_since_def uncaught_def logger_def emit_def Let_def
        split: option.splits)
next
  assume "last (trace (fst (syncGraphqlSchemaToDisk f wo w))) \<noteq> synced_line"
  then show "error_lines (effects_since w (fst (syncGraphqlSchemaToDisk f wo w))) \<noteq> []"
    by (rule_tac sync_cases [of f wo w]) (simp_all add: effects_since_def sync_begins_def)
next
  assume c: "code error \<noteq> Some (JNum 0)"
  have "error_lines (map (\<lambda>l. Log ERROR (Text l [])) ls) = map (\<lambda>l. Text l []) ls" for ls
    by (induction ls) simp_all
  then show "error_lines (effects_since w (fst (compileRelayGeneratedArtifacts (Failed error) w))) =
        map (\<lambda>l. Text l []) (butlast (drop 4 (split CHR 0x0A (stdout error))))"
    by (simp add: compile_failed [OF c] effects_since_def)
qed

theorem detected_errors_logged_witness:
  "Log ERROR (Thrown (Error ''no such root'')) \<in>
     set (effects_since (boot sample_disk)
            (fst (watchProject_callback \<lparr>err = Some (Error ''no such root''), resp = None\<rparr> (boot sample_disk)))) \<and>
   error_lines (effects_since (boot sample_disk)
      (fst (syncGraphqlSchemaToDisk (Network_error (Error ''ECONNREFUSED'')) Written (boot sample_disk)))) \<noteq> [] \<and>
   error_lines (effects_since (boot sample_disk)
      (fst (compileRelayGeneratedArtifacts (Failed sample_failure) (boot sample_disk)))) =
     [Text ''bad file'' [], Text ''worse'' []]"
  using detected_errors_logged [of "\<lparr>err = Some (Error ''no such root''), resp = None\<rparr>" "Error ''no such root''"
          "boot sample_disk" _ _ _ "Network_error (Error ''ECONNREFUSED'')" Written sample_failure]
  by (simp add: sample_failure_def sync_network_error synced_line_def)

subsection \<open>Reading back what \<open>JSON.stringify\<close> writes\<close>



























lemma tail_ok_Cons:
  "\<not> is_digit c \<Longrightarrow> c \<noteq> CHR ''.'' \<Longrightarrow> c \<noteq> CHR ''e'' \<Longrightarrow> c \<noteq> CHR ''E'' \<Longrightarrow> tail_ok (c # s)"
  by (simp add: tail_ok_def)















subsection \<open>The written snapshot\<close>












end
